theory Spec2Isabelle
  imports Complex_Main "HOL-Library.Monad_Syntax"
begin

section \<open>Values of the host language\<close>

text \<open>
  Python strings are modelled as \<open>string\<close>, one \<open>char\<close> per code point, over the code
  points 0 to 255. Timestamps (\<open>datetime\<close>) are integers and session identifiers
  (\<open>UUID\<close>) are natural numbers. Every reading of \<open>datetime.utcnow()\<close> and every fresh
  \<open>uuid4()\<close> is an argument of the operation that makes it, named after the field it is
  stored in; nothing is assumed about how successive readings compare.
\<close>

type_synonym datetime = int
type_synonym uuid = nat

text \<open>\<open>str.isspace\<close> of one character; also the class \<open>\s\<close> of \<open>re\<close> on \<open>str\<close> patterns.\<close>

definition py_isspace :: "char \<Rightarrow> bool" where
  "py_isspace c =
     (let n = (of_char c :: nat)
      in (9 \<le> n \<and> n \<le> 13) \<or> (28 \<le> n \<and> n \<le> 32) \<or> n = 133 \<or> n = 160)"

text \<open>\<open>str.lower\<close> of one character: the letters A to Z and the Latin-1 capitals.\<close>

definition py_lower_char :: "char \<Rightarrow> char" where
  "py_lower_char c =
     (let n = (of_char c :: nat)
      in if (65 \<le> n \<and> n \<le> 90) \<or> (192 \<le> n \<and> n \<le> 222 \<and> n \<noteq> 215)
         then char_of (n + 32) else c)"

definition py_lower :: "string \<Rightarrow> string" where
  "py_lower s = map py_lower_char s"

definition py_lstrip :: "string \<Rightarrow> string" where
  "py_lstrip s = dropWhile py_isspace s"

definition py_rstrip :: "string \<Rightarrow> string" where
  "py_rstrip s = rev (dropWhile py_isspace (rev s))"

definition py_strip :: "string \<Rightarrow> string" where
  "py_strip s = py_rstrip (py_lstrip s)"

text \<open>\<open>sep.join(parts)\<close>.\<close>

fun py_join :: "string \<Rightarrow> string list \<Rightarrow> string" where
  "py_join sep [] = []"
| "py_join sep [x] = x"
| "py_join sep (x # y # ys) = x @ sep @ py_join sep (y # ys)"

fun starts_with :: "string \<Rightarrow> string \<Rightarrow> bool" where
  "starts_with [] t = True"
| "starts_with (p # ps) [] = False"
| "starts_with (p # ps) (c # cs) = (p = c \<and> starts_with ps cs)"

text \<open>\<open>sub in text\<close> on strings.\<close>

fun py_in :: "string \<Rightarrow> string \<Rightarrow> bool" where
  "py_in sub [] = (sub = [])"
| "py_in sub (c # cs) = (starts_with sub (c # cs) \<or> py_in sub cs)"

text \<open>
  The first occurrence of \<open>pat\<close> in a text: the text before it and the text after it.
\<close>

fun find_first :: "string \<Rightarrow> string \<Rightarrow> (string \<times> string) option" where
  "find_first pat [] = (if pat = [] then Some ([], []) else None)"
| "find_first pat (c # cs) =
     (if starts_with pat (c # cs) then Some ([], drop (length pat) (c # cs))
      else (case find_first pat cs of
              None \<Rightarrow> None
            | Some (before, after) \<Rightarrow> Some (c # before, after)))"

text \<open>The decimal digits of a natural number, and \<open>str(i)\<close> of an integer.\<close>

fun str_of_nat :: "nat \<Rightarrow> string" where
  "str_of_nat n =
     (if n < 10 then [char_of (48 + n)]
      else str_of_nat (n div 10) @ [char_of (48 + n mod 10)])"

declare str_of_nat.simps [simp del]

definition py_str_int :: "int \<Rightarrow> string" where
  "py_str_int i = (if i < 0 then CHR ''-'' # str_of_nat (nat (- i)) else str_of_nat (nat i))"

text \<open>
  The values \<open>json.loads\<close> produces. A finite float is the rational it denotes; the
  non-finite floats are outside the model. An object is the list of its members, and
  \<open>dict.get\<close> finds a key's binding in it.
\<close>

datatype json =
    JNull
  | JBool bool
  | JInt int
  | JFloat rat
  | JStr string
  | JArr "json list"
  | JObj "(string \<times> json) list"

definition dict_get :: "(string \<times> json) list \<Rightarrow> string \<Rightarrow> json option" where
  "dict_get d k = map_of d k"

definition dict_get_default :: "(string \<times> json) list \<Rightarrow> string \<Rightarrow> json \<Rightarrow> json" where
  "dict_get_default d k dflt = (case map_of d k of None \<Rightarrow> dflt | Some v \<Rightarrow> v)"

fun py_type_name :: "json \<Rightarrow> string" where
  "py_type_name JNull = ''NoneType''"
| "py_type_name (JBool b) = ''bool''"
| "py_type_name (JInt i) = ''int''"
| "py_type_name (JFloat r) = ''float''"
| "py_type_name (JStr s) = ''str''"
| "py_type_name (JArr xs) = ''list''"
| "py_type_name (JObj kvs) = ''dict''"

text \<open>
  Exceptions, each with the text \<open>str(e)\<close> gives. \<open>ExternalError\<close> is whatever the
  generation capability, the client construction or the decoding of the frame raises.
\<close>

datatype exc =
    ExternalError string
  | ValueError string
  | TypeError string
  | AttributeError string
  | IndexError string
  | ValidationError string
  | HTTPException nat string

fun exc_str :: "exc \<Rightarrow> string" where
  "exc_str (ExternalError m) = m"
| "exc_str (ValueError m) = m"
| "exc_str (TypeError m) = m"
| "exc_str (AttributeError m) = m"
| "exc_str (IndexError m) = m"
| "exc_str (ValidationError m) = m"
| "exc_str (HTTPException code m) = m"

text \<open>
  The library functions the services call, taken as parameters:
  \<open>json_loads\<close> is \<open>json.loads\<close> (\<open>None\<close> when it raises \<open>JSONDecodeError\<close>),
  \<open>py_float\<close> is \<open>float(v)\<close>, \<open>py_repr\<close> is \<open>repr(v)\<close>,
  \<open>pyd_bool_lax\<close> and \<open>pyd_int_lax\<close> are the validation library's coercions of a value
  that is not already a \<open>bool\<close> (an \<open>int\<close>) to that type (\<open>None\<close> when it rejects the
  value), and \<open>pyd_error_text\<close> is the text of the \<open>ValidationError\<close> raised for a model
  and its rejected constructor arguments.
\<close>

record pylib =
  json_loads :: "string \<Rightarrow> json option"
  py_float :: "json \<Rightarrow> exc + rat"
  py_repr :: "json \<Rightarrow> string"
  pyd_bool_lax :: "json \<Rightarrow> bool option"
  pyd_int_lax :: "json \<Rightarrow> int option"
  pyd_error_text :: "string \<Rightarrow> json list \<Rightarrow> string"


definition pyd_str :: "json \<Rightarrow> string option" where
  "pyd_str v = (case v of JStr s \<Rightarrow> Some s | _ \<Rightarrow> None)"

definition pyd_int :: "pylib \<Rightarrow> json \<Rightarrow> int option" where
  "pyd_int lib v = (case v of JInt i \<Rightarrow> Some i | _ \<Rightarrow> pyd_int_lax lib v)"

definition pyd_bool :: "pylib \<Rightarrow> json \<Rightarrow> bool option" where
  "pyd_bool lib v = (case v of JBool b \<Rightarrow> Some b | _ \<Rightarrow> pyd_bool_lax lib v)"

text \<open>
  An \<open>Optional\<close> field: an absent argument and \<open>None\<close> are accepted as \<open>None\<close>, any
  other value goes through the field's own validation.
\<close>

definition pyd_optional :: "(json \<Rightarrow> 'a option) \<Rightarrow> json option \<Rightarrow> 'a option option" where
  "pyd_optional f a =
     (case a of
        None \<Rightarrow> Some None
      | Some JNull \<Rightarrow> Some None
      | Some v \<Rightarrow> (case f v of None \<Rightarrow> None | Some x \<Rightarrow> Some (Some x)))"

fun pyd_str_list :: "json list \<Rightarrow> string list option" where
  "pyd_str_list [] = Some []"
| "pyd_str_list (x # xs) =
     (case pyd_str x of
        None \<Rightarrow> None
      | Some s \<Rightarrow> (case pyd_str_list xs of None \<Rightarrow> None | Some ss \<Rightarrow> Some (s # ss)))"

definition json_of_option :: "json option \<Rightarrow> json" where
  "json_of_option a = (case a of None \<Rightarrow> JNull | Some v \<Rightarrow> v)"

section \<open>Data model (models/emergency.py)\<close>

datatype EmergencyType =
    CARDIAC_ARREST | HEART_ATTACK
  | CHOKING | DROWNING | ASTHMA_ATTACK
  | SEVERE_BLEEDING | FRACTURE | BURN | HEAD_INJURY
  | STROKE | SEIZURE | DIABETIC_EMERGENCY | ALLERGIC_REACTION | POISONING
  | UNCONSCIOUS | SHOCK | UNKNOWN

fun emergency_type_value :: "EmergencyType \<Rightarrow> string" where
  "emergency_type_value CARDIAC_ARREST = ''cardiac_arrest''"
| "emergency_type_value HEART_ATTACK = ''heart_attack''"
| "emergency_type_value CHOKING = ''choking''"
| "emergency_type_value DROWNING = ''drowning''"
| "emergency_type_value ASTHMA_ATTACK = ''asthma_attack''"
| "emergency_type_value SEVERE_BLEEDING = ''severe_bleeding''"
| "emergency_type_value FRACTURE = ''fracture''"
| "emergency_type_value BURN = ''burn''"
| "emergency_type_value HEAD_INJURY = ''head_injury''"
| "emergency_type_value STROKE = ''stroke''"
| "emergency_type_value SEIZURE = ''seizure''"
| "emergency_type_value DIABETIC_EMERGENCY = ''diabetic_emergency''"
| "emergency_type_value ALLERGIC_REACTION = ''allergic_reaction''"
| "emergency_type_value POISONING = ''poisoning''"
| "emergency_type_value UNCONSCIOUS = ''unconscious''"
| "emergency_type_value SHOCK = ''shock''"
| "emergency_type_value UNKNOWN = ''unknown''"

definition emergency_type_members :: "EmergencyType list" where
  "emergency_type_members =
     [CARDIAC_ARREST, HEART_ATTACK, CHOKING, DROWNING, ASTHMA_ATTACK, SEVERE_BLEEDING,
      FRACTURE, BURN, HEAD_INJURY, STROKE, SEIZURE, DIABETIC_EMERGENCY, ALLERGIC_REACTION,
      POISONING, UNCONSCIOUS, SHOCK, UNKNOWN]"

datatype SeverityLevel = LOW | MODERATE | HIGH | CRITICAL | EXTREME

fun severity_value :: "SeverityLevel \<Rightarrow> int" where
  "severity_value LOW = 1"
| "severity_value MODERATE = 2"
| "severity_value HIGH = 3"
| "severity_value CRITICAL = 4"
| "severity_value EXTREME = 5"

definition severity_members :: "SeverityLevel list" where
  "severity_members = [LOW, MODERATE, HIGH, CRITICAL, EXTREME]"

datatype EmergencyStatus =
    PENDING | ANALYZING | ACTIVE | MONITORING | RESOLVED | ESCALATED | CANCELLED

text \<open>
  \<open>EmergencyType(v)\<close>: the member whose value equals \<open>v\<close>, and \<open>ValueError\<close> when there
  is none. Only a string can equal the value of a member of this string enumeration.
\<close>

definition EmergencyType_of :: "pylib \<Rightarrow> json \<Rightarrow> exc + EmergencyType" where
  "EmergencyType_of lib v =
     (case (case v of
              JStr s \<Rightarrow> find (\<lambda>t. emergency_type_value t = s) emergency_type_members
            | _ \<Rightarrow> None) of
        Some t \<Rightarrow> Inr t
      | None \<Rightarrow> Inl (ValueError (py_repr lib v @ '' is not a valid EmergencyType'')))"

text \<open>
  \<open>SeverityLevel(v)\<close>: the member whose value equals \<open>v\<close>. An \<open>int\<close>, a \<open>float\<close> with an
  integral value and a \<open>bool\<close> (\<open>True == 1\<close>) can equal the integer value of a member.
\<close>

definition json_int_value :: "json \<Rightarrow> int option" where
  "json_int_value v =
     (case v of
        JInt i \<Rightarrow> Some i
      | JFloat r \<Rightarrow> (if r = of_int \<lfloor>r\<rfloor> then Some \<lfloor>r\<rfloor> else None)
      | JBool b \<Rightarrow> Some (if b then 1 else 0)
      | _ \<Rightarrow> None)"

definition SeverityLevel_of :: "pylib \<Rightarrow> json \<Rightarrow> exc + SeverityLevel" where
  "SeverityLevel_of lib v =
     (case (case json_int_value v of
              Some i \<Rightarrow> find (\<lambda>l. severity_value l = i) severity_members
            | None \<Rightarrow> None) of
        Some l \<Rightarrow> Inr l
      | None \<Rightarrow> Inl (ValueError (py_repr lib v @ '' is not a valid SeverityLevel'')))"

record FirstAidInstruction =
  step_number :: int
  instruction_text :: string
  voice_text :: string
  duration_seconds :: "int option"
  requires_confirmation :: bool
  warning :: "string option"
  visual_cue :: "string option"

text \<open>
  The constructor \<open>FirstAidInstruction(...)\<close> with its field constraints:
  \<open>step_number \<ge> 1\<close>, both texts of 1 to 500 characters, \<open>duration_seconds \<ge> 0\<close>,
  \<open>warning\<close> and \<open>visual_cue\<close> of at most 200 characters.
\<close>

definition validate_FirstAidInstruction ::
  "pylib \<Rightarrow> json \<Rightarrow> json \<Rightarrow> json \<Rightarrow> json option \<Rightarrow> json \<Rightarrow> json option \<Rightarrow> json option
     \<Rightarrow> FirstAidInstruction option" where
  "validate_FirstAidInstruction lib sn it vt ds rc w vc =
     do {
       n \<leftarrow> pyd_int lib sn;
       i \<leftarrow> pyd_str it;
       v \<leftarrow> pyd_str vt;
       d \<leftarrow> pyd_optional (pyd_int lib) ds;
       r \<leftarrow> pyd_bool lib rc;
       wa \<leftarrow> pyd_optional pyd_str w;
       cu \<leftarrow> pyd_optional pyd_str vc;
       if 1 \<le> n \<and> 1 \<le> length i \<and> length i \<le> 500 \<and> 1 \<le> length v \<and> length v \<le> 500
          \<and> (case d of None \<Rightarrow> True | Some k \<Rightarrow> 0 \<le> k)
          \<and> (case wa of None \<Rightarrow> True | Some t \<Rightarrow> length t \<le> 200)
          \<and> (case cu of None \<Rightarrow> True | Some t \<Rightarrow> length t \<le> 200)
       then Some \<lparr>step_number = n, instruction_text = i, voice_text = v,
                  duration_seconds = d, requires_confirmation = r, warning = wa,
                  visual_cue = cu\<rparr>
       else None
     }"

definition new_FirstAidInstruction ::
  "pylib \<Rightarrow> json \<Rightarrow> json \<Rightarrow> json \<Rightarrow> json option \<Rightarrow> json \<Rightarrow> json option \<Rightarrow> json option
     \<Rightarrow> exc + FirstAidInstruction" where
  "new_FirstAidInstruction lib sn it vt ds rc w vc =
     (case validate_FirstAidInstruction lib sn it vt ds rc w vc of
        Some x \<Rightarrow> Inr x
      | None \<Rightarrow>
          Inl (ValidationError
                 (pyd_error_text lib ''FirstAidInstruction''
                    [sn, it, vt, json_of_option ds, rc, json_of_option w, json_of_option vc])))"

record EmergencyAnalysis =
  emergency_type :: EmergencyType
  severity :: SeverityLevel
  confidence_score :: rat
  observations :: "string list"
  recommended_action :: string
  call_emergency_services :: bool
  additional_context :: "string option"

text \<open>The field validator \<open>validate_observations\<close>.\<close>

definition validate_observations :: "string list \<Rightarrow> string list" where
  "validate_observations value =
     map py_strip (filter (\<lambda>obs. obs \<noteq> [] \<and> py_strip obs \<noteq> []) value)"

text \<open>
  The constructor \<open>EmergencyAnalysis(...)\<close>: \<open>confidence_score\<close> within 0 and 1, a list
  of strings as \<open>observations\<close> (then cleaned by the validator), \<open>recommended_action\<close>
  of 1 to 500 characters, \<open>additional_context\<close> of at most 1000 characters.
\<close>

definition validate_EmergencyAnalysis ::
  "pylib \<Rightarrow> EmergencyType \<Rightarrow> SeverityLevel \<Rightarrow> rat \<Rightarrow> json \<Rightarrow> json \<Rightarrow> json \<Rightarrow> json option
     \<Rightarrow> EmergencyAnalysis option" where
  "validate_EmergencyAnalysis lib et sev conf obs ra ces ctx =
     do {
       os \<leftarrow> (case obs of JArr xs \<Rightarrow> pyd_str_list xs | _ \<Rightarrow> None);
       a \<leftarrow> pyd_str ra;
       c \<leftarrow> pyd_bool lib ces;
       x \<leftarrow> pyd_optional pyd_str ctx;
       if 0 \<le> conf \<and> conf \<le> 1 \<and> 1 \<le> length a \<and> length a \<le> 500
          \<and> (case x of None \<Rightarrow> True | Some t \<Rightarrow> length t \<le> 1000)
       then Some \<lparr>emergency_type = et, severity = sev, confidence_score = conf,
                  observations = validate_observations os, recommended_action = a,
                  call_emergency_services = c, additional_context = x\<rparr>
       else None
     }"

definition new_EmergencyAnalysis ::
  "pylib \<Rightarrow> EmergencyType \<Rightarrow> SeverityLevel \<Rightarrow> rat \<Rightarrow> json \<Rightarrow> json \<Rightarrow> json \<Rightarrow> json option
     \<Rightarrow> exc + EmergencyAnalysis" where
  "new_EmergencyAnalysis lib et sev conf obs ra ces ctx =
     (case validate_EmergencyAnalysis lib et sev conf obs ra ces ctx of
        Some a \<Rightarrow> Inr a
      | None \<Rightarrow>
          Inl (ValidationError
                 (pyd_error_text lib ''EmergencyAnalysis''
                    [JStr (emergency_type_value et), JInt (severity_value sev), JFloat conf,
                     obs, ra, ces, json_of_option ctx])))"

record EmergencySession =
  session_id :: uuid
  status :: EmergencyStatus
  started_at :: datetime
  updated_at :: datetime
  ended_at :: "datetime option"
  analysis :: "EmergencyAnalysis option"
  instructions :: "FirstAidInstruction list"
  current_step :: int
  user_notes :: "string option"
  location_data :: "string option"

text \<open>\<open>EmergencySession.advance_step\<close>: the session after the call and the result.\<close>

definition EmergencySession_advance_step :: "EmergencySession \<Rightarrow> datetime \<Rightarrow> EmergencySession \<times> bool" where
  "EmergencySession_advance_step s t_updated =
     (if current_step s < int (length (instructions s))
      then (s\<lparr>current_step := current_step s + 1, updated_at := t_updated\<rparr>, True)
      else (s, False))"

text \<open>\<open>EmergencySession.get_current_instruction\<close>.\<close>

definition EmergencySession_get_current_instruction :: "EmergencySession \<Rightarrow> FirstAidInstruction option" where
  "EmergencySession_get_current_instruction s =
     (if 0 < current_step s \<and> current_step s \<le> int (length (instructions s))
      then Some (instructions s ! nat (current_step s - 1))
      else None)"


section \<open>Response normalizer and classifier adapter (services/gemini_service.py)\<close>

text \<open>
  \<open>re.search(r'```json\s*(.*?)\s*```', text, re.DOTALL)\<close> and its group 1. The match
  starts at the first \<open>```json\<close>; the greedy \<open>\s*\<close> takes all the whitespace after it;
  the lazy group then ends as early as \<open>\s*```\<close> can follow, which is before the
  whitespace that precedes the next \<open>```\<close>. There is no match when no \<open>```\<close> follows.
\<close>

definition search_json_fence :: "string \<Rightarrow> string option" where
  "search_json_fence text =
     (case find_first ''```json'' text of
        None \<Rightarrow> None
      | Some (before, after) \<Rightarrow>
          (case find_first ''```'' (py_lstrip after) of
             None \<Rightarrow> None
           | Some (inner, rest) \<Rightarrow> Some (py_rstrip inner)))"

text \<open>
  \<open>re.search(r'\{.*\}', text, re.DOTALL)\<close> and \<open>re.search(r'\[.*\]', text, re.DOTALL)\<close>
  with group 0: from the first opening character to the last closing character after
  it, as \<open>.*\<close> is greedy.
\<close>

definition search_greedy :: "char \<Rightarrow> char \<Rightarrow> string \<Rightarrow> string option" where
  "search_greedy opening closing text =
     (case dropWhile (\<lambda>c. c \<noteq> opening) text of
        [] \<Rightarrow> None
      | c # body \<Rightarrow>
          (case dropWhile (\<lambda>c. c \<noteq> closing) (rev body) of
             [] \<Rightarrow> None
           | d # ds \<Rightarrow> Some (c # rev (d # ds))))"

definition quoted :: "string \<Rightarrow> string" where
  "quoted s = [CHR 0x27] @ s @ [CHR 0x27]"

text \<open>
  \<open>_parse_analysis_response\<close>. Only \<open>JSONDecodeError\<close> is caught. The message logged
  after parsing calls \<open>data.keys()\<close>, which raises \<open>AttributeError\<close> on a parsed value
  that is not an object.
\<close>

definition parse_analysis_response :: "pylib \<Rightarrow> string \<Rightarrow> exc + (string \<times> json) list" where
  "parse_analysis_response lib response_text =
     (case (case search_json_fence response_text of
              Some json_str \<Rightarrow> Some json_str
            | None \<Rightarrow> search_greedy CHR ''{'' CHR ''}'' response_text) of
        None \<Rightarrow> Inr []
      | Some json_str \<Rightarrow>
          (case json_loads lib json_str of
             None \<Rightarrow> Inr []
           | Some (JObj d) \<Rightarrow> Inr d
           | Some v \<Rightarrow>
               Inl (AttributeError
                      (quoted (py_type_name v) @ '' object has no attribute ''
                         @ quoted ''keys''))))"

text \<open>\<open>_parse_instructions_response\<close>.\<close>

definition parse_instructions_response :: "pylib \<Rightarrow> string \<Rightarrow> json list" where
  "parse_instructions_response lib response_text =
     (case (case search_json_fence response_text of
              Some json_str \<Rightarrow> Some json_str
            | None \<Rightarrow> search_greedy CHR ''['' CHR '']'' response_text) of
        None \<Rightarrow> []
      | Some json_str \<Rightarrow>
          (case json_loads lib json_str of
             None \<Rightarrow> []
           | Some (JArr xs) \<Rightarrow> xs
           | Some v \<Rightarrow> []))"

text \<open>
  The construction of the analysis from the parsed payload. Keyword arguments are
  evaluated left to right, so the first failing conversion is the one that raises.
\<close>

definition map_analysis_fields :: "pylib \<Rightarrow> (string \<times> json) list \<Rightarrow> exc + EmergencyAnalysis" where
  "map_analysis_fields lib analysis_data =
     (case EmergencyType_of lib (dict_get_default analysis_data ''emergency_type'' (JStr ''unknown'')) of
        Inl e \<Rightarrow> Inl e
      | Inr et \<Rightarrow>
     (case SeverityLevel_of lib (dict_get_default analysis_data ''severity'' (JInt 3)) of
        Inl e \<Rightarrow> Inl e
      | Inr sev \<Rightarrow>
     (case (case dict_get analysis_data ''confidence_score'' of
              None \<Rightarrow> Inr (1 / 2)
            | Some v \<Rightarrow> py_float lib v) of
        Inl e \<Rightarrow> Inl e
      | Inr conf \<Rightarrow>
          new_EmergencyAnalysis lib et sev conf
            (dict_get_default analysis_data ''observations'' (JArr []))
            (dict_get_default analysis_data ''recommended_action'' (JStr ''Assess the situation''))
            (dict_get_default analysis_data ''call_emergency_services'' (JBool True))
            (dict_get analysis_data ''additional_context''))))"

text \<open>
  The body of the \<open>try\<close> block of \<open>analyze_emergency_frame\<close>. Its argument is the
  outcome of everything up to the use of \<open>response.text\<close>: the decoding of the frame,
  the prompt, the client and the generation call either raise or deliver a text (a
  response without text raises at its first use as a string).
\<close>

definition analysis_attempt :: "pylib \<Rightarrow> exc + string \<Rightarrow> exc + EmergencyAnalysis" where
  "analysis_attempt lib call_outcome =
     (case call_outcome of
        Inl e \<Rightarrow> Inl e
      | Inr response_text \<Rightarrow>
          (case parse_analysis_response lib response_text of
             Inl e \<Rightarrow> Inl e
           | Inr analysis_data \<Rightarrow> map_analysis_fields lib analysis_data))"

text \<open>The analysis built in the \<open>except\<close> clause.\<close>

definition default_analysis :: "pylib \<Rightarrow> exc \<Rightarrow> exc + EmergencyAnalysis" where
  "default_analysis lib e =
     new_EmergencyAnalysis lib UNKNOWN HIGH 0
       (JArr [JStr ''Analysis failed - please describe the situation''])
       (JStr ''Call 911 immediately and describe the emergency'')
       (JBool True)
       (Some (JStr (''Analysis error: '' @ exc_str e)))"

definition analyze_emergency_frame :: "pylib \<Rightarrow> exc + string \<Rightarrow> exc + EmergencyAnalysis" where
  "analyze_emergency_frame lib call_outcome =
     (case analysis_attempt lib call_outcome of
        Inr a \<Rightarrow> Inr a
      | Inl e \<Rightarrow> default_analysis lib e)"

text \<open>Constructions in sequence: the first one that raises ends the sequence.\<close>

fun all_built :: "(exc + 'a) list \<Rightarrow> exc + 'a list" where
  "all_built [] = Inr []"
| "all_built (r # rs) =
     (case r of
        Inl e \<Rightarrow> Inl e
      | Inr x \<Rightarrow> (case all_built rs of Inl e \<Rightarrow> Inl e | Inr xs \<Rightarrow> Inr (x # xs)))"

text \<open>
  \<open>_get_default_instructions\<close>. The dictionary of curated defaults and the generic
  default are all constructed on every call, before the lookup.
\<close>

definition cardiac_arrest_defaults :: "pylib \<Rightarrow> (exc + FirstAidInstruction) list" where
  "cardiac_arrest_defaults lib =
     [new_FirstAidInstruction lib (JInt 1) (JStr ''Call 911 immediately'')
        (JStr ''First, call 911 or have someone else call. Time is critical.'')
        None (JBool True) None None,
      new_FirstAidInstruction lib (JInt 2) (JStr ''Check for responsiveness'')
        (JStr (''Tap the person'' @ [CHR 0x27] @ ''s shoulders and shout ''
                 @ quoted ''Are you okay?''))
        (Some (JInt 5)) (JBool False) None None,
      new_FirstAidInstruction lib (JInt 3) (JStr ''Begin chest compressions'')
        (JStr (''Place the heel of your hand on the center of the chest. Push hard and fast, ''
                 @ ''about 2 inches deep, 100 to 120 times per minute.''))
        None (JBool True) (Some (JStr ''The person should be on a firm, flat surface'')) None]"

definition choking_defaults :: "pylib \<Rightarrow> (exc + FirstAidInstruction) list" where
  "choking_defaults lib =
     [new_FirstAidInstruction lib (JInt 1) (JStr ''Ask if they can speak'')
        (JStr (''Ask the person '' @ quoted ''Are you choking?''
                 @ '' If they cannot speak, cough, or breathe, they need help.''))
        (Some (JInt 5)) (JBool False) None None,
      new_FirstAidInstruction lib (JInt 2) (JStr ''Perform abdominal thrusts'')
        (JStr ''Stand behind them, make a fist above their navel, and thrust inward and upward.'')
        None (JBool True) (Some (JStr ''Be careful not to squeeze the ribs'')) None]"

definition generic_defaults :: "pylib \<Rightarrow> (exc + FirstAidInstruction) list" where
  "generic_defaults lib =
     [new_FirstAidInstruction lib (JInt 1) (JStr ''Call 911 immediately'')
        (JStr ''Call 911 immediately and describe the emergency.'')
        None (JBool True) None None,
      new_FirstAidInstruction lib (JInt 2) (JStr ''Keep the person calm and still'')
        (JStr ''Keep the person calm, still, and comfortable while waiting for help.'')
        None (JBool True) None None]"

definition get_default_instructions :: "pylib \<Rightarrow> EmergencyType \<Rightarrow> exc + FirstAidInstruction list" where
  "get_default_instructions lib et =
     (case all_built (cardiac_arrest_defaults lib) of
        Inl e \<Rightarrow> Inl e
      | Inr cardiac \<Rightarrow>
     (case all_built (choking_defaults lib) of
        Inl e \<Rightarrow> Inl e
      | Inr choking \<Rightarrow>
     (case all_built (generic_defaults lib) of
        Inl e \<Rightarrow> Inl e
      | Inr generic \<Rightarrow>
          Inr (case map_of [(CARDIAC_ARREST, cardiac), (CHOKING, choking)] et of
                 Some found \<Rightarrow> found
               | None \<Rightarrow> generic))))"

text \<open>One element of the parsed array, at its 1-based position \<open>i\<close>.\<close>

definition instruction_of_json :: "pylib \<Rightarrow> int \<Rightarrow> json \<Rightarrow> exc + FirstAidInstruction" where
  "instruction_of_json lib i inst_data =
     (case inst_data of
        JObj d \<Rightarrow>
          new_FirstAidInstruction lib
            (dict_get_default d ''step_number'' (JInt i))
            (dict_get_default d ''instruction_text'' (JStr (''Step '' @ py_str_int i)))
            (dict_get_default d ''voice_text''
               (dict_get_default d ''instruction_text'' (JStr (''Step '' @ py_str_int i))))
            (dict_get d ''duration_seconds'')
            (dict_get_default d ''requires_confirmation'' (JBool False))
            (dict_get d ''warning'')
            (dict_get d ''visual_cue'')
      | v \<Rightarrow>
          Inl (AttributeError
                 (quoted (py_type_name v) @ '' object has no attribute '' @ quoted ''get'')))"

fun map_instructions :: "pylib \<Rightarrow> int \<Rightarrow> json list \<Rightarrow> exc + FirstAidInstruction list" where
  "map_instructions lib i [] = Inr []"
| "map_instructions lib i (inst_data # rest) =
     (case instruction_of_json lib i inst_data of
        Inl e \<Rightarrow> Inl e
      | Inr instruction \<Rightarrow>
          (case map_instructions lib (i + 1) rest of
             Inl e \<Rightarrow> Inl e
           | Inr others \<Rightarrow> Inr (instruction # others)))"

text \<open>
  The body of the \<open>try\<close> block of \<open>generate_first_aid_instructions\<close>, from the outcome
  of the generation call, and the function itself.
\<close>

definition instructions_attempt :: "pylib \<Rightarrow> exc + string \<Rightarrow> exc + FirstAidInstruction list" where
  "instructions_attempt lib call_outcome =
     (case call_outcome of
        Inl e \<Rightarrow> Inl e
      | Inr response_text \<Rightarrow>
          map_instructions lib 1 (parse_instructions_response lib response_text))"

definition generate_first_aid_instructions ::
  "pylib \<Rightarrow> EmergencyType \<Rightarrow> exc + string \<Rightarrow> exc + FirstAidInstruction list" where
  "generate_first_aid_instructions lib et call_outcome =
     (case instructions_attempt lib call_outcome of
        Inr generated \<Rightarrow> Inr generated
      | Inl e \<Rightarrow> get_default_instructions lib et)"


section \<open>Emergency service (services/emergency_service.py)\<close>

text \<open>
  \<open>EmergencyService.analyze_frame\<close>: the result, or the exception re-raised, and the
  session as the call leaves it. The context string only feeds the prompt of the
  generation call, whose outcome is an argument here, one for each of the two calls.
\<close>

definition analyze_frame ::
  "pylib \<Rightarrow> EmergencySession \<Rightarrow> exc + string \<Rightarrow> exc + string \<Rightarrow> datetime \<Rightarrow> datetime
     \<Rightarrow> (exc + EmergencyAnalysis \<times> FirstAidInstruction list) \<times> EmergencySession" where
  "analyze_frame lib session analysis_outcome instructions_outcome t_analyzing t_updated =
     (let s1 = session\<lparr>status := ANALYZING, updated_at := t_analyzing\<rparr>
      in case analyze_emergency_frame lib analysis_outcome of
           Inl e \<Rightarrow> (Inl e, s1\<lparr>status := ACTIVE, updated_at := t_updated\<rparr>)
         | Inr a \<Rightarrow>
             (case generate_first_aid_instructions lib (emergency_type a) instructions_outcome of
                Inl e \<Rightarrow> (Inl e, s1\<lparr>status := ACTIVE, updated_at := t_updated\<rparr>)
              | Inr generated \<Rightarrow>
                  (Inr (a, generated),
                   s1\<lparr>analysis := Some a, instructions := generated, status := ACTIVE,
                      current_step := (if generated \<noteq> [] then 1 else 0),
                      updated_at := t_updated\<rparr>)))"

text \<open>\<open>EmergencyService.get_current_instruction\<close>.\<close>

definition get_current_instruction :: "EmergencySession \<Rightarrow> FirstAidInstruction option" where
  "get_current_instruction session =
     (if instructions session = [] then None
      else if current_step session < 1
              \<or> current_step session > int (length (instructions session)) then None
      else Some (instructions session ! nat (current_step session - 1)))"

text \<open>
  \<open>EmergencyService.advance_instruction\<close>: the session after the call and the returned
  pair.
\<close>

definition advance_instruction ::
  "EmergencySession \<Rightarrow> datetime \<Rightarrow> datetime
     \<Rightarrow> EmergencySession \<times> bool \<times> FirstAidInstruction option" where
  "advance_instruction session t_ended t_updated =
     (if instructions session = [] then (session, False, None)
      else if current_step session \<ge> int (length (instructions session))
      then (session\<lparr>status := RESOLVED, ended_at := Some t_ended, updated_at := t_updated\<rparr>,
            False, None)
      else (let s1 = session\<lparr>current_step := current_step session + 1,
                              updated_at := t_updated\<rparr>
            in (s1, True, get_current_instruction s1)))"

text \<open>\<open>EmergencyService.calculate_severity_score\<close>.\<close>

definition type_severity :: "(EmergencyType \<times> int) list" where
  "type_severity =
     [(CARDIAC_ARREST, 5), (STROKE, 5), (DROWNING, 5), (SEVERE_BLEEDING, 4), (CHOKING, 4),
      (HEAD_INJURY, 4), (HEART_ATTACK, 4), (POISONING, 4), (ALLERGIC_REACTION, 4),
      (SEIZURE, 3), (ASTHMA_ATTACK, 3), (DIABETIC_EMERGENCY, 3), (BURN, 3),
      (UNCONSCIOUS, 4), (SHOCK, 4), (FRACTURE, 2), (UNKNOWN, 3)]"

definition critical_keywords :: "string list" where
  "critical_keywords =
     [''not breathing'', ''no pulse'', ''unconscious'', ''unresponsive'',
      ''severe'', ''massive'', ''arterial'', ''profuse'']"

text \<open>The loop over the keywords, which stops at the first one found.\<close>

fun scan_keywords :: "string list \<Rightarrow> string \<Rightarrow> int \<Rightarrow> int" where
  "scan_keywords [] obs_text sev = sev"
| "scan_keywords (keyword # rest) obs_text sev =
     (if py_in keyword obs_text then min 5 (sev + 1) else scan_keywords rest obs_text sev)"

text \<open>\<open>type_severity.get(emergency_type, 3)\<close>.\<close>

definition base_severity :: "EmergencyType \<Rightarrow> int" where
  "base_severity et = (case map_of type_severity et of None \<Rightarrow> 3 | Some base \<Rightarrow> base)"

definition calculate_severity_score :: "EmergencyType \<Rightarrow> string list \<Rightarrow> int" where
  "calculate_severity_score et obs =
     scan_keywords critical_keywords (py_lower (py_join '' '' obs)) (base_severity et)"

section \<open>Session service (services/session_service.py)\<close>

record StartSessionRequest =
  start_user_notes :: "string option"
  start_location_data :: "string option"
  device_info :: "string option"

record EndSessionRequest =
  reason :: string
  request_notes :: "string option"
  emergency_services_called :: bool

text \<open>
  The store \<open>_sessions\<close>. A session handed out by the store is the stored object
  itself, so what a service does to it is done to the store's entry. A session is
  inserted by \<open>create_session\<close> only, under its own \<open>session_id\<close>, which no operation
  changes; the entry written back is therefore the entry that was looked up. The
  request that starts a session has passed its own validation, whose length bounds are
  those of the session's fields.
\<close>

type_synonym store = "uuid \<Rightarrow> EmergencySession option"

definition uuid_str :: "uuid \<Rightarrow> string" where
  "uuid_str sid = str_of_nat sid"

definition new_session ::
  "StartSessionRequest \<Rightarrow> uuid \<Rightarrow> datetime \<Rightarrow> datetime \<Rightarrow> EmergencySession" where
  "new_session request new_id t_started t_updated =
     \<lparr>session_id = new_id, status = PENDING, started_at = t_started, updated_at = t_updated,
      ended_at = None, analysis = None, instructions = [], current_step = 0,
      user_notes = start_user_notes request, location_data = start_location_data request\<rparr>"

definition create_session ::
  "store \<Rightarrow> StartSessionRequest \<Rightarrow> uuid \<Rightarrow> datetime \<Rightarrow> datetime \<Rightarrow> EmergencySession \<times> store" where
  "create_session sessions request new_id t_started t_updated =
     (let session = new_session request new_id t_started t_updated
      in (session, sessions(session_id session \<mapsto> session)))"

definition get_session :: "store \<Rightarrow> uuid \<Rightarrow> EmergencySession option" where
  "get_session sessions sid = sessions sid"

definition update_session ::
  "store \<Rightarrow> EmergencySession \<Rightarrow> datetime \<Rightarrow> (exc + EmergencySession) \<times> store" where
  "update_session sessions session t_updated =
     (if sessions (session_id session) = None
      then (Inl (ValueError (''Session '' @ uuid_str (session_id session) @ '' not found'')),
            sessions)
      else (let s1 = session\<lparr>updated_at := t_updated\<rparr>
            in (Inr s1, sessions(session_id s1 \<mapsto> s1))))"

text \<open>
  \<open>SessionService.end_session\<close>, from the check of the status on: the exception
  raised, or the session as ended.
\<close>

definition end_found_session ::
  "EmergencySession \<Rightarrow> EndSessionRequest \<Rightarrow> datetime \<Rightarrow> datetime \<Rightarrow> exc + EmergencySession" where
  "end_found_session session request t_ended t_updated =
     (if status session \<in> set [RESOLVED, CANCELLED]
      then Inl (ValueError (''Session '' @ uuid_str (session_id session) @ '' is already ended''))
      else
        (let s1 = session\<lparr>status :=
                    (if emergency_services_called request then ESCALATED
                     else if py_in ''cancel'' (py_lower (reason request)) then CANCELLED
                     else RESOLVED)\<rparr>;
             s2 = s1\<lparr>ended_at := Some t_ended, updated_at := t_updated\<rparr>;
             s3 = (case request_notes request of
                     None \<Rightarrow> s2
                   | Some n \<Rightarrow>
                       if n = [] then s2
                       else s2\<lparr>user_notes :=
                              Some (py_strip
                                      ((case user_notes s2 of None \<Rightarrow> [] | Some existing \<Rightarrow> existing)
                                         @ [CHR 0x0A, CHR 0x0A] @ ''Resolution: '' @ n))\<rparr>)
         in Inr s3))"

definition end_session ::
  "store \<Rightarrow> uuid \<Rightarrow> EndSessionRequest \<Rightarrow> datetime \<Rightarrow> datetime
     \<Rightarrow> (exc + EmergencySession) \<times> store" where
  "end_session sessions sid request t_ended t_updated =
     (case get_session sessions sid of
        None \<Rightarrow> (Inl (ValueError (''Session '' @ uuid_str sid @ '' not found'')), sessions)
      | Some session \<Rightarrow>
          (case end_found_session session request t_ended t_updated of
             Inl e \<Rightarrow> (Inl e, sessions)
           | Inr s1 \<Rightarrow> (Inr s1, sessions(session_id s1 \<mapsto> s1))))"

definition get_active_sessions_count :: "EmergencySession list \<Rightarrow> nat" where
  "get_active_sessions_count stored =
     length (filter (\<lambda>session. status session \<in> set [PENDING, ANALYZING, ACTIVE, MONITORING])
               stored)"

text \<open>The test of \<open>cleanup_expired_sessions\<close> for removing one stored session.\<close>

definition is_expired :: "EmergencySession \<Rightarrow> datetime \<Rightarrow> bool" where
  "is_expired session cutoff =
     (status session \<in> set [RESOLVED, CANCELLED, ESCALATED]
      \<and> (case ended_at session of None \<Rightarrow> updated_at session | Some t \<Rightarrow> t) < cutoff)"

section \<open>Advancing a step at the boundary (controllers/emergency_controller.py)\<close>

record AdvanceStepRequest =
  request_session_id :: uuid
  request_current_step :: int
  feedback :: "string option"

record InstructionData =
  data_session_id :: uuid
  data_current_step :: int
  data_total_steps :: int
  data_instruction :: FirstAidInstruction
  data_next_instruction :: "FirstAidInstruction option"
  data_voice_text :: string

record InstructionResponse =
  success :: bool
  message :: string
  data :: "InstructionData option"

text \<open>
  Subscription \<open>xs[i]\<close> of a list by an integer: positions \<open>-len(xs)\<close> to \<open>-1\<close>
  address the elements from the back, positions outside \<open>-len(xs)\<close> to
  \<open>len(xs) - 1\<close> raise \<open>IndexError\<close>.
\<close>

definition py_getitem :: "'a list \<Rightarrow> int \<Rightarrow> exc + 'a" where
  "py_getitem xs i =
     (if 0 \<le> i \<and> i < int (length xs) then Inr (xs ! nat i)
      else if i < 0 \<and> - int (length xs) \<le> i then Inr (xs ! nat (int (length xs) + i))
      else Inl (IndexError ''list index out of range''))"

text \<open>
  The part of \<open>EmergencyController.advance_step\<close> after the session is advanced and
  stored: the response for the session \<open>s\<close>.
\<close>

definition advance_response ::
  "pylib \<Rightarrow> EmergencySession \<Rightarrow> bool \<Rightarrow> FirstAidInstruction option \<Rightarrow> exc + InstructionResponse" where
  "advance_response lib s advanced new_instruction =
     (if \<not> advanced
      then Inr \<lparr>success = True, message = ''All instructions completed'', data = None\<rparr>
      else
        (case (if current_step s < int (length (instructions s))
               then (case py_getitem (instructions s) (current_step s) of
                       Inl e \<Rightarrow> Inl e
                     | Inr nxt \<Rightarrow> Inr (Some nxt))
               else Inr None) of
           Inl e \<Rightarrow> Inl e
         | Inr next_instruction \<Rightarrow>
             (let text = ''Step '' @ py_str_int (current_step s) @ '' of ''
                           @ py_str_int (int (length (instructions s))) @ ''. ''
                           @ (case new_instruction of
                                None \<Rightarrow> ''Complete.''
                              | Some i \<Rightarrow> voice_text i)
              in case new_instruction of
                   None \<Rightarrow>
                     Inr \<lparr>success = True,
                          message = ''Advanced to step '' @ py_str_int (current_step s),
                          data = None\<rparr>
                 | Some i \<Rightarrow>
                     if 1 \<le> current_step s \<and> 1 \<le> int (length (instructions s))
                     then Inr \<lparr>success = True,
                               message = ''Advanced to step '' @ py_str_int (current_step s),
                               data = Some \<lparr>data_session_id = session_id s,
                                            data_current_step = current_step s,
                                            data_total_steps = int (length (instructions s)),
                                            data_instruction = i,
                                            data_next_instruction = next_instruction,
                                            data_voice_text = text\<rparr>\<rparr>
                     else Inl (ValidationError
                                 (pyd_error_text lib ''InstructionData''
                                    [JInt (current_step s),
                                     JInt (int (length (instructions s)))])))))"

text \<open>
  \<open>EmergencyController.advance_step\<close>: an \<open>HTTPException\<close> passes through, any other
  exception becomes a status 500.
\<close>

definition controller_advance_step ::
  "pylib \<Rightarrow> store \<Rightarrow> AdvanceStepRequest \<Rightarrow> datetime \<Rightarrow> datetime \<Rightarrow> datetime
     \<Rightarrow> (exc + InstructionResponse) \<times> store" where
  "controller_advance_step lib sessions request t_ended t_updated t_stored =
     (case get_session sessions (request_session_id request) of
        None \<Rightarrow>
          (Inl (HTTPException 404
                  (''Session '' @ uuid_str (request_session_id request) @ '' not found'')),
           sessions)
      | Some session \<Rightarrow>
          if current_step session \<noteq> request_current_step request
          then (Inl (HTTPException 400
                       (''Step mismatch: current step is '' @ py_str_int (current_step session))),
                sessions)
          else
            (case advance_instruction session t_ended t_updated of
               (s1, advanced, new_instruction) \<Rightarrow>
                 (case update_session (sessions(session_id s1 \<mapsto> s1)) s1 t_stored of
                    (Inl e, sessions2) \<Rightarrow>
                      (Inl (HTTPException 500 (''Step advancement failed: '' @ exc_str e)),
                       sessions2)
                  | (Inr s2, sessions2) \<Rightarrow>
                      (case advance_response lib s2 advanced new_instruction of
                         Inl e \<Rightarrow>
                           (Inl (HTTPException 500
                                   (''Step advancement failed: '' @ exc_str e)),
                            sessions2)
                       | Inr response \<Rightarrow> (Inr response, sessions2)))))"


section \<open>Sequences of operations on one session\<close>

text \<open>
  The operations on a session after its creation, each with the outcomes of the
  generation calls and the clock readings it consumes, and the session each leaves.
  Reading the current instruction changes nothing; ending a session that is rejected
  changes nothing.
\<close>

datatype operation =
    Analyze "exc + string" "exc + string" datetime datetime
  | Advance datetime datetime
  | AdvanceModel datetime
  | GetCurrent
  | EndSession EndSessionRequest datetime datetime

fun apply_operation :: "pylib \<Rightarrow> EmergencySession \<Rightarrow> operation \<Rightarrow> EmergencySession" where
  "apply_operation lib s (Analyze analysis_outcome instructions_outcome t_analyzing t_updated) =
     snd (analyze_frame lib s analysis_outcome instructions_outcome t_analyzing t_updated)"
| "apply_operation lib s (Advance t_ended t_updated) =
     fst (advance_instruction s t_ended t_updated)"
| "apply_operation lib s (AdvanceModel t_updated) =
     fst (EmergencySession_advance_step s t_updated)"
| "apply_operation lib s GetCurrent = s"
| "apply_operation lib s (EndSession request t_ended t_updated) =
     (case end_found_session s request t_ended t_updated of Inl e \<Rightarrow> s | Inr s1 \<Rightarrow> s1)"

definition step_in_range :: "EmergencySession \<Rightarrow> bool" where
  "step_in_range s = (0 \<le> current_step s \<and> current_step s \<le> int (length (instructions s)))"

section \<open>The built-in instruction sets, as values\<close>

definition builtin_cardiac_arrest :: "FirstAidInstruction list" where
  "builtin_cardiac_arrest =
     [\<lparr>step_number = 1, instruction_text = ''Call 911 immediately'',
       voice_text = ''First, call 911 or have someone else call. Time is critical.'',
       duration_seconds = None, requires_confirmation = True, warning = None,
       visual_cue = None\<rparr>,
      \<lparr>step_number = 2, instruction_text = ''Check for responsiveness'',
       voice_text = ''Tap the person'' @ [CHR 0x27] @ ''s shoulders and shout ''
                      @ quoted ''Are you okay?'',
       duration_seconds = Some 5, requires_confirmation = False, warning = None,
       visual_cue = None\<rparr>,
      \<lparr>step_number = 3, instruction_text = ''Begin chest compressions'',
       voice_text = ''Place the heel of your hand on the center of the chest. Push hard and fast, ''
                      @ ''about 2 inches deep, 100 to 120 times per minute.'',
       duration_seconds = None, requires_confirmation = True,
       warning = Some ''The person should be on a firm, flat surface'',
       visual_cue = None\<rparr>]"

definition builtin_choking :: "FirstAidInstruction list" where
  "builtin_choking =
     [\<lparr>step_number = 1, instruction_text = ''Ask if they can speak'',
       voice_text = ''Ask the person '' @ quoted ''Are you choking?''
                      @ '' If they cannot speak, cough, or breathe, they need help.'',
       duration_seconds = Some 5, requires_confirmation = False, warning = None,
       visual_cue = None\<rparr>,
      \<lparr>step_number = 2, instruction_text = ''Perform abdominal thrusts'',
       voice_text = ''Stand behind them, make a fist above their navel, and thrust inward and upward.'',
       duration_seconds = None, requires_confirmation = True,
       warning = Some ''Be careful not to squeeze the ribs'',
       visual_cue = None\<rparr>]"

definition builtin_generic :: "FirstAidInstruction list" where
  "builtin_generic =
     [\<lparr>step_number = 1, instruction_text = ''Call 911 immediately'',
       voice_text = ''Call 911 immediately and describe the emergency.'',
       duration_seconds = None, requires_confirmation = True, warning = None,
       visual_cue = None\<rparr>,
      \<lparr>step_number = 2, instruction_text = ''Keep the person calm and still'',
       voice_text = ''Keep the person calm, still, and comfortable while waiting for help.'',
       duration_seconds = None, requires_confirmation = True, warning = None,
       visual_cue = None\<rparr>]"

definition builtin_instructions :: "EmergencyType \<Rightarrow> FirstAidInstruction list" where
  "builtin_instructions et =
     (if et = CARDIAC_ARREST then builtin_cardiac_arrest
      else if et = CHOKING then builtin_choking
      else builtin_generic)"

section \<open>Concrete inputs\<close>

text \<open>
  A library instance for evaluation: \<open>json.loads\<close> on three texts, \<open>float\<close> on
  numbers, \<open>repr\<close> of integers, and coercions that reject whatever is not already of
  the wanted type.
\<close>

definition dq :: string where
  "dq = [CHR 0x22]"

text \<open>Response texts: a payload whose severity is 7, and the text of the example.\<close>

definition severity_7_text :: string where
  "severity_7_text = ''{'' @ dq @ ''severity'' @ dq @ '': 7}''"

definition fenced_object_text :: string where
  "fenced_object_text = ''here you go ```json {'' @ dq @ ''a'' @ dq @ '':1} ``` thanks''"

definition sample_lib :: pylib where
  "sample_lib =
     \<lparr>json_loads =
        map_of [(''{'' @ dq @ ''a'' @ dq @ '':1}'', JObj [(''a'', JInt 1)]),
                (''[1]'', JArr [JInt 1]),
                (''{'' @ dq @ ''severity'' @ dq @ '': 7}'', JObj [(''severity'', JInt 7)])],
      py_float =
        (\<lambda>v. case v of
               JInt i \<Rightarrow> Inr (of_int i)
             | JFloat r \<Rightarrow> Inr r
             | _ \<Rightarrow> Inl (TypeError ''float() argument must be a string or a real number'')),
      py_repr = (\<lambda>v. case v of JInt i \<Rightarrow> py_str_int i | _ \<Rightarrow> ''...''),
      pyd_bool_lax = (\<lambda>v. None),
      pyd_int_lax = (\<lambda>v. None),
      pyd_error_text = (\<lambda>model args. ''1 validation error for '' @ model)\<rparr>"

definition sample_instruction :: FirstAidInstruction where
  "sample_instruction =
     \<lparr>step_number = 1, instruction_text = ''Call 911 immediately'',
      voice_text = ''Call 911 immediately and describe the emergency.'',
      duration_seconds = None, requires_confirmation = True, warning = None,
      visual_cue = None\<rparr>"

text \<open>A session with one instruction, at its last step.\<close>

definition sample_session :: EmergencySession where
  "sample_session =
     \<lparr>session_id = 1, status = ACTIVE, started_at = 0, updated_at = 5, ended_at = None,
      analysis = None, instructions = [sample_instruction], current_step = 1,
      user_notes = None, location_data = None\<rparr>"

text \<open>A session that was escalated at time 10.\<close>

definition escalated_session :: EmergencySession where
  "escalated_session =
     \<lparr>session_id = 1, status = ESCALATED, started_at = 0, updated_at = 10,
      ended_at = Some 10, analysis = None, instructions = [sample_instruction],
      current_step = 1, user_notes = None, location_data = None\<rparr>"

definition sample_end_request :: EndSessionRequest where
  "sample_end_request =
     \<lparr>reason = ''situation resolved'', request_notes = None,
      emergency_services_called = False\<rparr>"

definition sample_start_request :: StartSessionRequest where
  "sample_start_request =
     \<lparr>start_user_notes = Some ''he collapsed'', start_location_data = None,
      device_info = None\<rparr>"

definition sample_advance_request :: AdvanceStepRequest where
  "sample_advance_request =
     \<lparr>request_session_id = 1, request_current_step = 1, feedback = None\<rparr>"


section \<open>Auxiliary facts\<close>

lemma get_default_instructions_builtin:
  "get_default_instructions lib et = Inr (builtin_instructions et)"
  unfolding get_default_instructions_def cardiac_arrest_defaults_def choking_defaults_def
    generic_defaults_def builtin_instructions_def builtin_cardiac_arrest_def
    builtin_choking_def builtin_generic_def
  by (simp add: new_FirstAidInstruction_def validate_FirstAidInstruction_def pyd_int_def
        pyd_str_def pyd_bool_def pyd_optional_def quoted_def)

lemma builtin_instructions_nonempty: "builtin_instructions et \<noteq> []"
  by (simp add: builtin_instructions_def builtin_cardiac_arrest_def builtin_choking_def
        builtin_generic_def)

lemma generate_first_aid_instructions_raised:
  "generate_first_aid_instructions lib et (Inl e) = Inr (builtin_instructions et)"
  by (simp add: generate_first_aid_instructions_def instructions_attempt_def
        get_default_instructions_builtin)

lemma analyze_frame_cases:
  "analyze_frame lib s ao io t1 t2 =
     (case analyze_emergency_frame lib ao of
        Inl e \<Rightarrow> (Inl e, s\<lparr>status := ACTIVE, updated_at := t2\<rparr>)
      | Inr a \<Rightarrow>
          (case generate_first_aid_instructions lib (emergency_type a) io of
             Inl e \<Rightarrow> (Inl e, s\<lparr>status := ACTIVE, updated_at := t2\<rparr>)
           | Inr g \<Rightarrow>
               (Inr (a, g),
                s\<lparr>status := ACTIVE, updated_at := t2, analysis := Some a, instructions := g,
                   current_step := (if g \<noteq> [] then 1 else 0)\<rparr>)))"
  by (simp add: analyze_frame_def Let_def split: sum.splits)

lemma default_analysis_short:
  "length (exc_str e) \<le> 984 \<Longrightarrow>
   default_analysis lib e =
     Inr \<lparr>emergency_type = UNKNOWN, severity = HIGH, confidence_score = 0,
          observations = [''Analysis failed - please describe the situation''],
          recommended_action = ''Call 911 immediately and describe the emergency'',
          call_emergency_services = True,
          additional_context = Some (''Analysis error: '' @ exc_str e)\<rparr>"
  by (simp add: default_analysis_def new_EmergencyAnalysis_def validate_EmergencyAnalysis_def
        pyd_str_def pyd_bool_def pyd_optional_def validate_observations_def
        py_strip_def py_lstrip_def py_rstrip_def py_isspace_def)

lemma default_analysis_long:
  "1000 < length (''Analysis error: '' @ exc_str e) \<Longrightarrow>
   default_analysis lib e =
     Inl (ValidationError
            (pyd_error_text lib ''EmergencyAnalysis''
               [JStr ''unknown'', JInt 3, JFloat 0,
                JArr [JStr ''Analysis failed - please describe the situation''],
                JStr ''Call 911 immediately and describe the emergency'', JBool True,
                JStr (''Analysis error: '' @ exc_str e)]))"
  by (simp add: default_analysis_def new_EmergencyAnalysis_def validate_EmergencyAnalysis_def
        pyd_str_def pyd_bool_def pyd_optional_def json_of_option_def)

lemma analyze_emergency_frame_timeout:
  "analyze_emergency_frame lib (Inl (ExternalError ''connection timed out'')) =
     Inr \<lparr>emergency_type = UNKNOWN, severity = HIGH, confidence_score = 0,
          observations = [''Analysis failed - please describe the situation''],
          recommended_action = ''Call 911 immediately and describe the emergency'',
          call_emergency_services = True,
          additional_context = Some ''Analysis error: connection timed out''\<rparr>"
  by (simp add: analyze_emergency_frame_def analysis_attempt_def default_analysis_short)

lemma parse_instructions_response_prose:
  "parse_instructions_response lib ''I cannot help with that'' = []"
  by (simp add: parse_instructions_response_def search_json_fence_def search_greedy_def)

lemma generate_first_aid_instructions_prose:
  "generate_first_aid_instructions lib et (Inr ''I cannot help with that'') = Inr []"
  by (simp add: generate_first_aid_instructions_def instructions_attempt_def
        parse_instructions_response_prose)

subsection \<open>The step pointer under each operation\<close>

lemma step_in_range_analyze_frame:
  "step_in_range s \<Longrightarrow> step_in_range (snd (analyze_frame lib s ao io t1 t2))"
  by (auto simp: analyze_frame_cases step_in_range_def Suc_le_eq split: sum.splits)

lemma step_in_range_advance_instruction:
  "step_in_range s \<Longrightarrow> step_in_range (fst (advance_instruction s t1 t2))"
  by (auto simp: advance_instruction_def step_in_range_def Let_def)

lemma step_in_range_advance_step:
  "step_in_range s \<Longrightarrow> step_in_range (fst (EmergencySession_advance_step s t))"
  by (auto simp: EmergencySession_advance_step_def step_in_range_def)

lemma end_found_session_keeps_steps:
  "end_found_session s r t1 t2 = Inr s1 \<Longrightarrow>
     current_step s1 = current_step s \<and> instructions s1 = instructions s"
  by (auto simp: end_found_session_def Let_def split: if_splits option.splits)

lemma step_in_range_end_found_session:
  "step_in_range s \<Longrightarrow>
   step_in_range (case end_found_session s r t1 t2 of Inl e \<Rightarrow> s | Inr s1 \<Rightarrow> s1)"
  by (auto simp: step_in_range_def split: sum.splits dest: end_found_session_keeps_steps)

lemma step_in_range_apply_operation:
  "step_in_range s \<Longrightarrow> step_in_range (apply_operation lib s op)"
  by (cases op)
     (simp_all add: step_in_range_analyze_frame step_in_range_advance_instruction
        step_in_range_advance_step step_in_range_end_found_session)

lemma step_in_range_foldl:
  "step_in_range s \<Longrightarrow> step_in_range (foldl (apply_operation lib) s ops)"
  by (induction ops arbitrary: s) (simp_all add: step_in_range_apply_operation)

lemma step_in_range_new_session: "step_in_range (new_session request new_id t0 t1)"
  by (simp add: step_in_range_def new_session_def)

subsection \<open>The keyword scan\<close>

lemma scan_keywords_any:
  "scan_keywords ks txt sev = (if \<exists>k\<in>set ks. py_in k txt then min 5 (sev + 1) else sev)"
  by (induction ks) auto

section \<open>Ending a session (C1)\<close>

text \<open>
  C1. The claim is that \<open>end_session\<close> on a session whose status is Resolved, Escalated
  or Cancelled fails with the already-ended error and leaves the session as it was.
  The check in \<open>end_session\<close> lists Resolved and Cancelled only. On a session that was
  escalated at time 10, a request to end it at time 20 is accepted: the status becomes
  Resolved and \<open>ended_at\<close> becomes 20.
\<close>

theorem end_session_escalated_ended_again:
  "end_session [1 \<mapsto> escalated_session] 1 sample_end_request 20 21 =
     (Inr (escalated_session\<lparr>status := RESOLVED, ended_at := Some 20, updated_at := 21\<rparr>),
      [1 \<mapsto> escalated_session\<lparr>status := RESOLVED, ended_at := Some 20, updated_at := 21\<rparr>])
   \<and> status escalated_session = ESCALATED
   \<and> ended_at escalated_session = Some 10"
  by (simp add: end_session_def get_session_def end_found_session_def escalated_session_def
        sample_end_request_def Let_def py_lower_def py_lower_char_def)

section \<open>Advancing a step (C3)\<close>

text \<open>
  C3. \<open>advance_instruction\<close> does nothing and returns \<open>(False, None)\<close> when the
  session has no instructions; when the step pointer equals the number of instructions
  it sets the status to Resolved, stamps \<open>ended_at\<close> and returns \<open>(False, None)\<close>;
  otherwise, the pointer being within its bounds 0 to the number of instructions, it
  adds exactly 1 to the pointer and returns \<open>True\<close> with the instruction at the new
  pointer (1-based).
\<close>

theorem advance_instruction_cases:
  "(instructions s = [] \<longrightarrow> advance_instruction s t_ended t_updated = (s, False, None))
   \<and> (instructions s \<noteq> [] \<and> current_step s = int (length (instructions s)) \<longrightarrow>
        advance_instruction s t_ended t_updated =
          (s\<lparr>status := RESOLVED, ended_at := Some t_ended, updated_at := t_updated\<rparr>,
           False, None))
   \<and> (instructions s \<noteq> [] \<and> 0 \<le> current_step s
        \<and> current_step s < int (length (instructions s)) \<longrightarrow>
        advance_instruction s t_ended t_updated =
          (s\<lparr>current_step := current_step s + 1, updated_at := t_updated\<rparr>, True,
           Some (instructions s ! nat (current_step s + 1 - 1))))"
  by (auto simp: advance_instruction_def get_current_instruction_def Let_def)

theorem advance_instruction_cases_witness:
  "advance_instruction sample_session 7 8 =
     (sample_session\<lparr>status := RESOLVED, ended_at := Some 7, updated_at := 8\<rparr>, False, None)
   \<and> advance_instruction (sample_session\<lparr>current_step := 0\<rparr>) 7 8 =
       (sample_session\<lparr>current_step := 1, updated_at := 8\<rparr>, True, Some sample_instruction)
   \<and> advance_instruction (sample_session\<lparr>instructions := [], current_step := 0\<rparr>) 7 8 =
       (sample_session\<lparr>instructions := [], current_step := 0\<rparr>, False, None)"
proof -
  have a: "instructions sample_session \<noteq> []
           \<and> current_step sample_session = int (length (instructions sample_session))"
    by (simp add: sample_session_def)
  have b: "instructions (sample_session\<lparr>current_step := 0\<rparr>) \<noteq> []
           \<and> 0 \<le> current_step (sample_session\<lparr>current_step := 0\<rparr>)
           \<and> current_step (sample_session\<lparr>current_step := 0\<rparr>)
               < int (length (instructions (sample_session\<lparr>current_step := 0\<rparr>)))"
    by (simp add: sample_session_def)
  have c: "instructions (sample_session\<lparr>instructions := [], current_step := 0\<rparr>) = []"
    by simp
  from advance_instruction_cases [of sample_session 7 8] a
  have 1: "advance_instruction sample_session 7 8 =
     (sample_session\<lparr>status := RESOLVED, ended_at := Some 7, updated_at := 8\<rparr>, False, None)"
    by blast
  from advance_instruction_cases [of "sample_session\<lparr>current_step := 0\<rparr>" 7 8] b
  have 2: "advance_instruction (sample_session\<lparr>current_step := 0\<rparr>) 7 8 =
       (sample_session\<lparr>current_step := 1, updated_at := 8\<rparr>, True, Some sample_instruction)"
    by (simp add: sample_session_def)
  from advance_instruction_cases
         [of "sample_session\<lparr>instructions := [], current_step := 0\<rparr>" 7 8] c
  have 3: "advance_instruction (sample_session\<lparr>instructions := [], current_step := 0\<rparr>) 7 8 =
       (sample_session\<lparr>instructions := [], current_step := 0\<rparr>, False, None)"
    by blast
  from 1 2 3 show ?thesis by simp
qed

section \<open>The step pointer stays within its bounds (C4)\<close>

text \<open>
  C4. Starting from a newly created session, after any sequence of analyses (successful
  or failed), step advances, reads of the current instruction and requests to end the
  session, the step pointer is at least 0 and at most the number of instructions; each
  single operation keeps the pointer within these bounds. A
  successful analysis stores the generated instructions and sets the pointer to 1 when
  there is at least one of them, and to 0 when there is none.
\<close>

theorem step_in_range_after_every_operation:
  "step_in_range (foldl (apply_operation lib) (new_session request new_id t0 t1) ops)
   \<and> (step_in_range s \<longrightarrow> step_in_range (apply_operation lib s op))
   \<and> (\<forall>a generated s1.
        analyze_frame lib s analysis_outcome instructions_outcome t2 t3
          = (Inr (a, generated), s1)
        \<longrightarrow> instructions s1 = generated
            \<and> current_step s1 = (if generated = [] then 0 else 1))"
  by (auto simp: step_in_range_foldl step_in_range_new_session step_in_range_apply_operation
           analyze_frame_cases split: sum.splits)

theorem step_in_range_after_every_operation_witness:
  "step_in_range
     (foldl (apply_operation sample_lib) (new_session sample_start_request 1 0 0)
        [Analyze (Inl (ExternalError ''connection timed out''))
                 (Inl (ExternalError ''connection timed out'')) 1 2,
         GetCurrent, Advance 3 4, Advance 5 6, Advance 7 8,
         EndSession sample_end_request 9 10])
   \<and> current_step
        (snd (analyze_frame sample_lib sample_session
                (Inl (ExternalError ''connection timed out''))
                (Inl (ExternalError ''connection timed out'')) 1 2)) = 1
   \<and> current_step
        (snd (analyze_frame sample_lib sample_session
                (Inl (ExternalError ''connection timed out''))
                (Inr ''I cannot help with that'') 1 2)) = 0"
proof -
  let ?fallback =
    "\<lparr>emergency_type = UNKNOWN, severity = HIGH, confidence_score = 0,
      observations = [''Analysis failed - please describe the situation''],
      recommended_action = ''Call 911 immediately and describe the emergency'',
      call_emergency_services = True,
      additional_context = Some ''Analysis error: connection timed out''\<rparr>"
  let ?after1 =
    "sample_session\<lparr>status := ACTIVE, updated_at := 2, analysis := Some ?fallback,
                    instructions := builtin_generic, current_step := 1\<rparr>"
  let ?after2 =
    "sample_session\<lparr>status := ACTIVE, updated_at := 2, analysis := Some ?fallback,
                    instructions := [], current_step := 0\<rparr>"
  have run1:
    "analyze_frame sample_lib sample_session (Inl (ExternalError ''connection timed out''))
       (Inl (ExternalError ''connection timed out'')) 1 2
     = (Inr (?fallback, builtin_generic), ?after1)"
    by (simp add: analyze_frame_cases analyze_emergency_frame_timeout
          generate_first_aid_instructions_raised builtin_instructions_def builtin_generic_def)
  have run2:
    "analyze_frame sample_lib sample_session (Inl (ExternalError ''connection timed out''))
       (Inr ''I cannot help with that'') 1 2
     = (Inr (?fallback, []), ?after2)"
    by (simp add: analyze_frame_cases analyze_emergency_frame_timeout
          generate_first_aid_instructions_prose)
  have gen: "builtin_generic \<noteq> []"
    by (simp add: builtin_generic_def)
  note t1 = step_in_range_after_every_operation
              [of sample_lib sample_start_request 1 0 0 _ sample_session GetCurrent
                  "Inl (ExternalError ''connection timed out'')"
                  "Inl (ExternalError ''connection timed out'')" 1 2]
  note t2 = step_in_range_after_every_operation
              [of sample_lib sample_start_request 1 0 0 "[]" sample_session GetCurrent
                  "Inl (ExternalError ''connection timed out'')"
                  "Inr ''I cannot help with that''" 1 2]
  from t1 have p1: "step_in_range
     (foldl (apply_operation sample_lib) (new_session sample_start_request 1 0 0)
        [Analyze (Inl (ExternalError ''connection timed out''))
                 (Inl (ExternalError ''connection timed out'')) 1 2,
         GetCurrent, Advance 3 4, Advance 5 6, Advance 7 8,
         EndSession sample_end_request 9 10])"
    by blast
  from t1 run1 gen have p2: "current_step ?after1 = 1"
    by simp
  from t2 run2 have p3: "current_step ?after2 = 0"
    by simp
  from p1 p2 p3 run1 run2 show ?thesis
    by simp
qed

section \<open>The severity heuristic (C9)\<close>

text \<open>
  C9. \<open>calculate_severity_score\<close> returns the base score of the emergency type, plus 1
  and capped at 5 when some critical keyword occurs in the lowercased observations
  joined by spaces, however many keywords occur. The base score is 5 for cardiac
  arrest, stroke and drowning, 4 for severe bleeding and choking, 3 for seizure and
  asthma attack, 2 for fracture and 3 for unknown. Cardiac arrest with the observation
  "no pulse" gives 5 and fracture without observations gives 2.
\<close>

theorem calculate_severity_score_rule:
  "calculate_severity_score et obs =
     (if \<exists>k\<in>set critical_keywords. py_in k (py_lower (py_join '' '' obs))
      then min 5 (base_severity et + 1) else base_severity et)
   \<and> base_severity CARDIAC_ARREST = 5 \<and> base_severity STROKE = 5
   \<and> base_severity DROWNING = 5
   \<and> base_severity SEVERE_BLEEDING = 4 \<and> base_severity CHOKING = 4
   \<and> base_severity SEIZURE = 3 \<and> base_severity ASTHMA_ATTACK = 3
   \<and> base_severity FRACTURE = 2 \<and> base_severity UNKNOWN = 3
   \<and> calculate_severity_score CARDIAC_ARREST [''no pulse''] = 5
   \<and> calculate_severity_score FRACTURE [] = 2"
proof -
  have general: "calculate_severity_score et obs =
     (if \<exists>k\<in>set critical_keywords. py_in k (py_lower (py_join '' '' obs))
      then min 5 (base_severity et + 1) else base_severity et)"
    by (simp only: calculate_severity_score_def scan_keywords_any)
  have table:
    "base_severity CARDIAC_ARREST = 5" "base_severity STROKE = 5" "base_severity DROWNING = 5"
    "base_severity SEVERE_BLEEDING = 4" "base_severity CHOKING = 4"
    "base_severity SEIZURE = 3" "base_severity ASTHMA_ATTACK = 3"
    "base_severity FRACTURE = 2" "base_severity UNKNOWN = 3"
    by (simp_all add: base_severity_def type_severity_def)
  have no_pulse: "calculate_severity_score CARDIAC_ARREST [''no pulse''] = 5"
    by (simp add: calculate_severity_score_def table critical_keywords_def py_lower_def
          py_lower_char_def)
  have no_observation: "calculate_severity_score FRACTURE [] = 2"
    by (simp add: calculate_severity_score_def table critical_keywords_def py_lower_def)
  from general table no_pulse no_observation show ?thesis
    by simp
qed

theorem calculate_severity_score_rule_witness:
  "calculate_severity_score FRACTURE [''Severe bleeding from leg'', ''victim is unconscious''] = 3
   \<and> calculate_severity_score STROKE [''massive'', ''arterial''] = 5
   \<and> calculate_severity_score SEIZURE [''shaking'', ''eyes closed''] = 3"
proof -
  have k1: "\<exists>k\<in>set critical_keywords.
      py_in k (py_lower (py_join '' '' [''Severe bleeding from leg'', ''victim is unconscious'']))"
    by code_simp
  have k2: "\<exists>k\<in>set critical_keywords.
      py_in k (py_lower (py_join '' '' [''massive'', ''arterial'']))"
    by code_simp
  have k3: "\<not> (\<exists>k\<in>set critical_keywords.
      py_in k (py_lower (py_join '' '' [''shaking'', ''eyes closed''])))"
    by code_simp
  from calculate_severity_score_rule
         [of FRACTURE "[''Severe bleeding from leg'', ''victim is unconscious'']"] k1
  have a: "calculate_severity_score FRACTURE
             [''Severe bleeding from leg'', ''victim is unconscious''] = 3"
    by simp
  from calculate_severity_score_rule [of STROKE "[''massive'', ''arterial'']"] k2
  have b: "calculate_severity_score STROKE [''massive'', ''arterial''] = 5"
    by simp
  from calculate_severity_score_rule [of SEIZURE "[''shaking'', ''eyes closed'']"] k3
  have c: "calculate_severity_score SEIZURE [''shaking'', ''eyes closed''] = 3"
    by simp
  from a b c show ?thesis by simp
qed

section \<open>A failed analysis workflow (C10)\<close>

text \<open>
  C10. When \<open>analyze_frame\<close> of the emergency service raises, the session is left with
  status Active and a new \<open>updated_at\<close>, and with its analysis, instructions, step
  pointer, \<open>ended_at\<close>, notes and location as before the call; the exception that
  reaches the caller is the one the workflow raised.
\<close>

theorem analyze_frame_failure_leaves_session:
  assumes "analyze_frame lib s analysis_outcome instructions_outcome t_analyzing t_updated
             = (Inl e, s1)"
  shows "s1 = s\<lparr>status := ACTIVE, updated_at := t_updated\<rparr>
         \<and> status s1 = ACTIVE
         \<and> analysis s1 = analysis s \<and> instructions s1 = instructions s
         \<and> current_step s1 = current_step s \<and> ended_at s1 = ended_at s
         \<and> user_notes s1 = user_notes s \<and> location_data s1 = location_data s
         \<and> (analyze_emergency_frame lib analysis_outcome = Inl e
            \<or> (\<exists>a. analyze_emergency_frame lib analysis_outcome = Inr a
                  \<and> generate_first_aid_instructions lib (emergency_type a)
                       instructions_outcome = Inl e))"
  using assms by (auto simp: analyze_frame_cases split: sum.splits)

theorem analyze_frame_failure_leaves_session_witness:
  "analyze_frame sample_lib sample_session
     (Inl (ExternalError (replicate 985 CHR ''x''))) (Inr []) 20 21
     = (Inl (ValidationError ''1 validation error for EmergencyAnalysis''),
        sample_session\<lparr>status := ACTIVE, updated_at := 21\<rparr>)
   \<and> status (sample_session\<lparr>status := ACTIVE, updated_at := 21\<rparr>) = ACTIVE
   \<and> current_step (sample_session\<lparr>status := ACTIVE, updated_at := 21\<rparr>)
       = current_step sample_session"
proof -
  have "analyze_emergency_frame sample_lib (Inl (ExternalError (replicate 985 CHR ''x'')))
        = Inl (ValidationError ''1 validation error for EmergencyAnalysis'')"
    by (simp add: analyze_emergency_frame_def analysis_attempt_def default_analysis_long
          sample_lib_def)
  then have run:
    "analyze_frame sample_lib sample_session
       (Inl (ExternalError (replicate 985 CHR ''x''))) (Inr []) 20 21
     = (Inl (ValidationError ''1 validation error for EmergencyAnalysis''),
        sample_session\<lparr>status := ACTIVE, updated_at := 21\<rparr>)"
    by (simp add: analyze_frame_cases)
  from analyze_frame_failure_leaves_session [OF run] run show ?thesis
    by simp
qed


section \<open>Advancing past the last step at the boundary (C2)\<close>

lemma controller_advance_step_at_end:
  assumes "sessions sid = Some s" and "session_id s = sid"
    and "request_session_id request = sid" and "instructions s \<noteq> []"
    and "current_step s = int (length (instructions s))"
    and "request_current_step request = current_step s"
  shows "controller_advance_step lib sessions request t1 t2 t3 =
     (Inr \<lparr>success = True, message = ''All instructions completed'', data = None\<rparr>,
      sessions(sid \<mapsto> s\<lparr>status := RESOLVED, ended_at := Some t1, updated_at := t3\<rparr>))"
  using assms
  by (simp add: controller_advance_step_def get_session_def advance_instruction_def
        update_session_def advance_response_def Let_def)

lemma controller_advance_step_mismatch:
  assumes "sessions (request_session_id r) = Some s"
    and "request_current_step r \<noteq> current_step s"
  shows "controller_advance_step lib sessions r t1 t2 t3 =
     (Inl (HTTPException 400
             (''Step mismatch: current step is '' @ py_str_int (current_step s))),
      sessions)"
  using assms by (auto simp: controller_advance_step_def get_session_def)

text \<open>
  C2, as claimed: on a session at its last step an advance request returns the
  completion response and resolves the session, and a further advance request is a
  state-conflict error that does not stamp \<open>ended_at\<close> again. The advance path never
  looks at the status. On the session with one instruction at step 1, the request at
  time 10 resolves it; the same request at time 20 is answered with the completion
  response again, and \<open>ended_at\<close> moves from 10 to 20.
\<close>

theorem advance_step_resolves_again:
  "fst (controller_advance_step sample_lib
          (snd (controller_advance_step sample_lib [1 \<mapsto> sample_session]
                  sample_advance_request 10 11 12))
          sample_advance_request 20 21 22)
     = Inr \<lparr>success = True, message = ''All instructions completed'', data = None\<rparr>
   \<and> snd (controller_advance_step sample_lib [1 \<mapsto> sample_session]
            sample_advance_request 10 11 12) 1
     = Some (sample_session\<lparr>status := RESOLVED, ended_at := Some 10, updated_at := 12\<rparr>)
   \<and> snd (controller_advance_step sample_lib
            (snd (controller_advance_step sample_lib [1 \<mapsto> sample_session]
                    sample_advance_request 10 11 12))
            sample_advance_request 20 21 22) 1
     = Some (sample_session\<lparr>status := RESOLVED, ended_at := Some 20, updated_at := 22\<rparr>)"
  by (simp add: controller_advance_step_def get_session_def advance_instruction_def
        update_session_def advance_response_def Let_def sample_session_def
        sample_advance_request_def)

text \<open>
  C2, as amended. For a stored session with at least one instruction whose step pointer
  equals the number of instructions, an advance request that claims this step returns
  the completion response (no instruction) and leaves the session Resolved with
  \<open>ended_at\<close> stamped. A further request that claims the same step is accepted in the
  same way: the completion response again, the status still Resolved, \<open>ended_at\<close>
  stamped with the time of that request. A request that claims any other step is a
  step-mismatch error (status 400) and leaves the store as it is.
\<close>

theorem advance_step_at_last_step:
  assumes "sessions sid = Some s" and "session_id s = sid"
    and "request_session_id request = sid" and "instructions s \<noteq> []"
    and "current_step s = int (length (instructions s))"
    and "request_current_step request = current_step s"
  shows "controller_advance_step lib sessions request t1 t2 t3 =
     (Inr \<lparr>success = True, message = ''All instructions completed'', data = None\<rparr>,
      sessions(sid \<mapsto> s\<lparr>status := RESOLVED, ended_at := Some t1, updated_at := t3\<rparr>))
   \<and> controller_advance_step lib
        (sessions(sid \<mapsto> s\<lparr>status := RESOLVED, ended_at := Some t1, updated_at := t3\<rparr>))
        request t4 t5 t6 =
     (Inr \<lparr>success = True, message = ''All instructions completed'', data = None\<rparr>,
      sessions(sid \<mapsto> s\<lparr>status := RESOLVED, ended_at := Some t4, updated_at := t6\<rparr>))
   \<and> (\<forall>stale. request_session_id stale = sid
                \<and> request_current_step stale \<noteq> current_step s \<longrightarrow>
          controller_advance_step lib
            (sessions(sid \<mapsto> s\<lparr>status := RESOLVED, ended_at := Some t1, updated_at := t3\<rparr>))
            stale t4 t5 t6 =
          (Inl (HTTPException 400
                  (''Step mismatch: current step is '' @ py_str_int (current_step s))),
           sessions(sid \<mapsto> s\<lparr>status := RESOLVED, ended_at := Some t1, updated_at := t3\<rparr>)))"
proof -
  let ?s1 = "s\<lparr>status := RESOLVED, ended_at := Some t1, updated_at := t3\<rparr>"
  let ?st1 = "sessions(sid \<mapsto> ?s1)"
  have first: "controller_advance_step lib sessions request t1 t2 t3 =
     (Inr \<lparr>success = True, message = ''All instructions completed'', data = None\<rparr>, ?st1)"
    using assms by (rule controller_advance_step_at_end)
  have second: "controller_advance_step lib ?st1 request t4 t5 t6 =
     (Inr \<lparr>success = True, message = ''All instructions completed'', data = None\<rparr>,
      ?st1(sid \<mapsto> ?s1\<lparr>status := RESOLVED, ended_at := Some t4, updated_at := t6\<rparr>))"
    using assms by (intro controller_advance_step_at_end) simp_all
  have third: "controller_advance_step lib ?st1 stale t4 t5 t6 =
          (Inl (HTTPException 400
                  (''Step mismatch: current step is '' @ py_str_int (current_step s))), ?st1)"
    if "request_session_id stale = sid" "request_current_step stale \<noteq> current_step s"
    for stale
    using controller_advance_step_mismatch [of ?st1 stale ?s1 lib t4 t5 t6] that by simp
  from first second third show ?thesis by simp
qed

theorem advance_step_at_last_step_witness:
  "controller_advance_step sample_lib [1 \<mapsto> sample_session] sample_advance_request 10 11 12 =
     (Inr \<lparr>success = True, message = ''All instructions completed'', data = None\<rparr>,
      [1 \<mapsto> sample_session\<lparr>status := RESOLVED, ended_at := Some 10, updated_at := 12\<rparr>])
   \<and> fst (controller_advance_step sample_lib
        [1 \<mapsto> sample_session\<lparr>status := RESOLVED, ended_at := Some 10, updated_at := 12\<rparr>]
        (sample_advance_request\<lparr>request_current_step := 2\<rparr>) 20 21 22) =
      Inl (HTTPException 400 ''Step mismatch: current step is 1'')"
proof -
  have h: "[1 \<mapsto> sample_session] 1 = Some sample_session" "session_id sample_session = 1"
    "request_session_id sample_advance_request = 1" "instructions sample_session \<noteq> []"
    "current_step sample_session = int (length (instructions sample_session))"
    "request_current_step sample_advance_request = current_step sample_session"
    by (simp_all add: sample_session_def sample_advance_request_def)
  have d: "request_session_id (sample_advance_request\<lparr>request_current_step := 2\<rparr>) = 1
      \<and> request_current_step (sample_advance_request\<lparr>request_current_step := 2\<rparr>)
          \<noteq> current_step sample_session"
    by (simp add: sample_session_def sample_advance_request_def)
  have "py_str_int 1 = ''1''"
    by code_simp
  then have one: "py_str_int (current_step sample_session) = ''1''"
    by (simp add: sample_session_def)
  from advance_step_at_last_step
         [where sessions = "[1 \<mapsto> sample_session]" and sid = 1 and s = sample_session
            and request = sample_advance_request and lib = sample_lib
            and ?t1.0 = 10 and ?t2.0 = 11 and ?t3.0 = 12
            and ?t4.0 = 20 and ?t5.0 = 21 and ?t6.0 = 22]
       h d one
  show ?thesis
    by simp
qed

section \<open>The fallback analysis (C5)\<close>

lemma py_str_int_7: "py_str_int 7 = ''7''"
  by code_simp

lemma EmergencyType_of_unknown: "EmergencyType_of lib (JStr ''unknown'') = Inr UNKNOWN"
  by (simp add: EmergencyType_of_def emergency_type_members_def)

lemma SeverityLevel_of_int:
  "SeverityLevel_of lib (JInt i) =
     (if i = 1 then Inr LOW else if i = 2 then Inr MODERATE else if i = 3 then Inr HIGH
      else if i = 4 then Inr CRITICAL else if i = 5 then Inr EXTREME
      else Inl (ValueError (py_repr lib (JInt i) @ '' is not a valid SeverityLevel'')))"
  by (simp add: SeverityLevel_of_def json_int_value_def severity_members_def)

lemma SeverityLevel_of_int_value:
  "SeverityLevel_of lib (JInt i) = Inr l \<Longrightarrow> severity_value l = i \<and> 1 \<le> i \<and> i \<le> 5"
  by (auto simp: SeverityLevel_of_int split: if_splits)

lemma map_analysis_fields_severity_7:
  "map_analysis_fields sample_lib [(''severity'', JInt 7)]
     = Inl (ValueError ''7 is not a valid SeverityLevel'')"
  by (simp add: map_analysis_fields_def dict_get_default_def EmergencyType_of_unknown
        SeverityLevel_of_int sample_lib_def py_str_int_7)

lemma parse_analysis_response_severity_7:
  "parse_analysis_response sample_lib severity_7_text = Inr [(''severity'', JInt 7)]"
  by (simp add: parse_analysis_response_def search_json_fence_def search_greedy_def dq_def
        sample_lib_def severity_7_text_def)

lemma analysis_attempt_severity_7:
  "analysis_attempt sample_lib (Inr severity_7_text)
     = Inl (ValueError ''7 is not a valid SeverityLevel'')"
  by (simp only: analysis_attempt_def parse_analysis_response_severity_7
        map_analysis_fields_severity_7 sum.case)

text \<open>
  C5, as claimed: when the generation call or the mapping raises, the analysis returned
  has type unknown, severity 4, confidence 0.0 and advises to call emergency services.
  The severity of the fallback is the member \<open>HIGH\<close>, whose value is 3: when the call
  raises "connection timed out", the analysis returned has severity 3.
\<close>

theorem fallback_severity_is_three:
  "analyze_emergency_frame sample_lib (Inl (ExternalError ''connection timed out'')) =
     Inr \<lparr>emergency_type = UNKNOWN, severity = HIGH, confidence_score = 0,
          observations = [''Analysis failed - please describe the situation''],
          recommended_action = ''Call 911 immediately and describe the emergency'',
          call_emergency_services = True,
          additional_context = Some ''Analysis error: connection timed out''\<rparr>
   \<and> severity_value HIGH = 3 \<and> severity_value HIGH \<noteq> 4"
  by (simp add: analyze_emergency_frame_timeout)

text \<open>
  C5, as amended. Whenever the generation call or the mapping of the fields raises an
  exception whose text has at most 984 characters, \<open>analyze_emergency_frame\<close> returns
  the fallback analysis: type unknown, severity \<open>HIGH\<close>, which is 3, confidence 0.0,
  the one observation that the analysis failed, the recommended action to call 911
  immediately, the advice to call emergency services, and the text of the exception as
  additional context.
\<close>

theorem analyze_emergency_frame_fallback:
  assumes "analysis_attempt lib call_outcome = Inl e" and "length (exc_str e) \<le> 984"
  shows "analyze_emergency_frame lib call_outcome =
     Inr \<lparr>emergency_type = UNKNOWN, severity = HIGH, confidence_score = 0,
          observations = [''Analysis failed - please describe the situation''],
          recommended_action = ''Call 911 immediately and describe the emergency'',
          call_emergency_services = True,
          additional_context = Some (''Analysis error: '' @ exc_str e)\<rparr>
     \<and> severity_value HIGH = 3"
  using assms by (simp add: analyze_emergency_frame_def default_analysis_short)

theorem analyze_emergency_frame_fallback_witness:
  "analyze_emergency_frame sample_lib (Inl (ExternalError ''quota exceeded'')) =
     Inr \<lparr>emergency_type = UNKNOWN, severity = HIGH, confidence_score = 0,
          observations = [''Analysis failed - please describe the situation''],
          recommended_action = ''Call 911 immediately and describe the emergency'',
          call_emergency_services = True,
          additional_context = Some ''Analysis error: quota exceeded''\<rparr>
   \<and> analyze_emergency_frame sample_lib (Inr severity_7_text) =
     Inr \<lparr>emergency_type = UNKNOWN, severity = HIGH, confidence_score = 0,
          observations = [''Analysis failed - please describe the situation''],
          recommended_action = ''Call 911 immediately and describe the emergency'',
          call_emergency_services = True,
          additional_context = Some ''Analysis error: 7 is not a valid SeverityLevel''\<rparr>"
proof -
  have a: "analysis_attempt sample_lib (Inl (ExternalError ''quota exceeded''))
             = Inl (ExternalError ''quota exceeded'')"
    by (simp add: analysis_attempt_def)
  have la: "length (exc_str (ExternalError ''quota exceeded'')) \<le> 984"
    by simp
  have lb: "length (exc_str (ValueError ''7 is not a valid SeverityLevel'')) \<le> 984"
    by simp
  from analyze_emergency_frame_fallback [OF a la]
       analyze_emergency_frame_fallback [OF analysis_attempt_severity_7 lb]
  show ?thesis
    by simp
qed


section \<open>The defaults of the field mapping (C6)\<close>

lemma new_EmergencyAnalysis_fields:
  assumes "new_EmergencyAnalysis lib et sev conf obs ra ces ctx = Inr a"
  shows "emergency_type a = et \<and> severity a = sev \<and> confidence_score a = conf
     \<and> (obs = JArr [] \<longrightarrow> observations a = [])
     \<and> (\<forall>r. ra = JStr r \<longrightarrow> recommended_action a = r)
     \<and> (\<forall>b. ces = JBool b \<longrightarrow> call_emergency_services a = b)
     \<and> (ctx = None \<longrightarrow> additional_context a = None)"
  using assms
  by (auto simp: new_EmergencyAnalysis_def validate_EmergencyAnalysis_def pyd_str_def
        pyd_bool_def pyd_optional_def validate_observations_def
        split: option.splits Option.bind_splits json.splits if_splits)

text \<open>
  C6, as claimed: the field mapping clamps a provided severity that is out of range
  into 1 to 5. The mapping converts the value with \<open>SeverityLevel(...)\<close>, which raises
  on 7; the analysis returned for such a payload is the fallback, of severity 3, and
  not one of severity 5.
\<close>

theorem severity_out_of_range_not_clamped:
  "map_analysis_fields sample_lib [(''severity'', JInt 7)]
     = Inl (ValueError ''7 is not a valid SeverityLevel'')
   \<and> analyze_emergency_frame sample_lib (Inr severity_7_text)
     = Inr \<lparr>emergency_type = UNKNOWN, severity = HIGH, confidence_score = 0,
          observations = [''Analysis failed - please describe the situation''],
          recommended_action = ''Call 911 immediately and describe the emergency'',
          call_emergency_services = True,
          additional_context = Some ''Analysis error: 7 is not a valid SeverityLevel''\<rparr>
   \<and> severity_value HIGH = 3"
  by (simp add: map_analysis_fields_severity_7 analyze_emergency_frame_def
        analysis_attempt_severity_7 default_analysis_short)

text \<open>
  C6, as amended. Whenever the field mapping returns an analysis for a parsed payload:
  a missing \<open>emergency_type\<close>, or the value "unknown", gives the type unknown; a missing
  \<open>severity\<close> gives \<open>HIGH\<close>, which is 3; an integer \<open>severity\<close> that was provided is
  within 1 to 5 and is the severity of the analysis; a missing \<open>confidence_score\<close> gives
  0.5; missing \<open>observations\<close> give the empty list; a missing \<open>recommended_action\<close>
  gives "Assess the situation"; a missing \<open>call_emergency_services\<close> gives true. An
  integer severity below 1 or above 5 is not clamped: the mapping raises \<open>ValueError\<close>.
  The empty payload is mapped to the analysis of all these defaults.
\<close>

theorem map_analysis_fields_defaults:
  "(map_analysis_fields lib d = Inr a \<longrightarrow>
      (dict_get d ''emergency_type'' = None
         \<or> dict_get d ''emergency_type'' = Some (JStr ''unknown'')
         \<longrightarrow> emergency_type a = UNKNOWN)
    \<and> (dict_get d ''severity'' = None \<longrightarrow> severity a = HIGH)
    \<and> (\<forall>i. dict_get d ''severity'' = Some (JInt i)
            \<longrightarrow> 1 \<le> i \<and> i \<le> 5 \<and> severity_value (severity a) = i)
    \<and> (dict_get d ''confidence_score'' = None \<longrightarrow> confidence_score a = 1 / 2)
    \<and> (dict_get d ''observations'' = None \<longrightarrow> observations a = [])
    \<and> (dict_get d ''recommended_action'' = None
          \<longrightarrow> recommended_action a = ''Assess the situation'')
    \<and> (dict_get d ''call_emergency_services'' = None \<longrightarrow> call_emergency_services a))
   \<and> severity_value HIGH = 3
   \<and> (\<forall>i. dict_get d ''severity'' = Some (JInt i) \<and> (i < 1 \<or> 5 < i)
          \<longrightarrow> (\<exists>m. map_analysis_fields lib d = Inl (ValueError m)))
   \<and> map_analysis_fields lib [] =
       Inr \<lparr>emergency_type = UNKNOWN, severity = HIGH, confidence_score = 1 / 2,
            observations = [], recommended_action = ''Assess the situation'',
            call_emergency_services = True, additional_context = None\<rparr>"
proof -
  have ok: "(dict_get d ''emergency_type'' = None
         \<or> dict_get d ''emergency_type'' = Some (JStr ''unknown'')
         \<longrightarrow> emergency_type a = UNKNOWN)
    \<and> (dict_get d ''severity'' = None \<longrightarrow> severity a = HIGH)
    \<and> (\<forall>i. dict_get d ''severity'' = Some (JInt i)
            \<longrightarrow> 1 \<le> i \<and> i \<le> 5 \<and> severity_value (severity a) = i)
    \<and> (dict_get d ''confidence_score'' = None \<longrightarrow> confidence_score a = 1 / 2)
    \<and> (dict_get d ''observations'' = None \<longrightarrow> observations a = [])
    \<and> (dict_get d ''recommended_action'' = None
          \<longrightarrow> recommended_action a = ''Assess the situation'')
    \<and> (dict_get d ''call_emergency_services'' = None \<longrightarrow> call_emergency_services a)"
    if m: "map_analysis_fields lib d = Inr a"
  proof -
    from m obtain et sev conf where
      et: "EmergencyType_of lib (dict_get_default d ''emergency_type'' (JStr ''unknown''))
             = Inr et"
      and sev: "SeverityLevel_of lib (dict_get_default d ''severity'' (JInt 3)) = Inr sev"
      and conf: "(case dict_get d ''confidence_score'' of
                    None \<Rightarrow> Inr (1 / 2)
                  | Some v \<Rightarrow> py_float lib v) = Inr conf"
      and new: "new_EmergencyAnalysis lib et sev conf
            (dict_get_default d ''observations'' (JArr []))
            (dict_get_default d ''recommended_action'' (JStr ''Assess the situation''))
            (dict_get_default d ''call_emergency_services'' (JBool True))
            (dict_get d ''additional_context'') = Inr a"
      by (auto simp: map_analysis_fields_def split: sum.splits)
    note f = new_EmergencyAnalysis_fields [OF new]
    have 1: "dict_get d ''emergency_type'' = None
         \<or> dict_get d ''emergency_type'' = Some (JStr ''unknown'')
         \<longrightarrow> emergency_type a = UNKNOWN"
      using et f by (auto simp: dict_get_def dict_get_default_def EmergencyType_of_unknown)
    have 2: "dict_get d ''severity'' = None \<longrightarrow> severity a = HIGH"
      using sev f by (auto simp: dict_get_def dict_get_default_def SeverityLevel_of_int)
    have 3: "\<forall>i. dict_get d ''severity'' = Some (JInt i)
            \<longrightarrow> 1 \<le> i \<and> i \<le> 5 \<and> severity_value (severity a) = i"
      using sev f
      by (auto simp: dict_get_def dict_get_default_def dest: SeverityLevel_of_int_value)
    have 4: "dict_get d ''confidence_score'' = None \<longrightarrow> confidence_score a = 1 / 2"
      using conf f by auto
    have 5: "dict_get d ''observations'' = None \<longrightarrow> observations a = []"
      using f by (auto simp: dict_get_def dict_get_default_def)
    have 6: "dict_get d ''recommended_action'' = None
          \<longrightarrow> recommended_action a = ''Assess the situation''"
      using f by (auto simp: dict_get_def dict_get_default_def)
    have 7: "dict_get d ''call_emergency_services'' = None \<longrightarrow> call_emergency_services a"
      using f by (auto simp: dict_get_def dict_get_default_def)
    from 1 2 3 4 5 6 7 show ?thesis by blast
  qed
  have bad: "\<exists>m. map_analysis_fields lib d = Inl (ValueError m)"
    if "dict_get d ''severity'' = Some (JInt i)" "i < 1 \<or> 5 < i" for i
    using that
    by (auto simp: map_analysis_fields_def dict_get_def dict_get_default_def
          SeverityLevel_of_int EmergencyType_of_def split: sum.splits option.splits)
  have empty: "map_analysis_fields lib [] =
       Inr \<lparr>emergency_type = UNKNOWN, severity = HIGH, confidence_score = 1 / 2,
            observations = [], recommended_action = ''Assess the situation'',
            call_emergency_services = True, additional_context = None\<rparr>"
    by (simp add: map_analysis_fields_def dict_get_def dict_get_default_def
          EmergencyType_of_unknown SeverityLevel_of_int new_EmergencyAnalysis_def
          validate_EmergencyAnalysis_def pyd_str_def pyd_bool_def pyd_optional_def
          validate_observations_def)
  from ok bad empty show ?thesis by auto
qed

theorem map_analysis_fields_defaults_witness:
  "map_analysis_fields sample_lib [(''emergency_type'', JStr ''choking''), (''severity'', JInt 4)]
     = Inr \<lparr>emergency_type = CHOKING, severity = CRITICAL, confidence_score = 1 / 2,
            observations = [], recommended_action = ''Assess the situation'',
            call_emergency_services = True, additional_context = None\<rparr>
   \<and> (\<exists>m. map_analysis_fields sample_lib [(''severity'', JInt 7)] = Inl (ValueError m))
   \<and> (\<exists>m. map_analysis_fields sample_lib [(''severity'', JInt 0)] = Inl (ValueError m))"
proof -
  let ?d = "[(''emergency_type'', JStr ''choking''), (''severity'', JInt 4)]"
  let ?a = "\<lparr>emergency_type = CHOKING, severity = CRITICAL, confidence_score = 1 / 2,
            observations = [], recommended_action = ''Assess the situation'',
            call_emergency_services = True, additional_context = None\<rparr>"
  have run: "map_analysis_fields sample_lib ?d = Inr ?a"
    by (simp add: map_analysis_fields_def dict_get_def dict_get_default_def
          EmergencyType_of_def emergency_type_members_def SeverityLevel_of_int
          new_EmergencyAnalysis_def validate_EmergencyAnalysis_def pyd_str_def pyd_bool_def
          pyd_optional_def validate_observations_def)
  have k7: "dict_get [(''severity'', JInt 7)] ''severity'' = Some (JInt 7)
            \<and> (7 < (1::int) \<or> (5::int) < 7)"
    by (simp add: dict_get_def)
  have k0: "dict_get [(''severity'', JInt 0)] ''severity'' = Some (JInt 0)
            \<and> (0 < (1::int) \<or> (5::int) < 0)"
    by (simp add: dict_get_def)
  from map_analysis_fields_defaults [of sample_lib ?d ?a] run
  have "severity_value (severity ?a) = 4 \<and> confidence_score ?a = 1 / 2"
    by (simp add: dict_get_def)
  moreover from map_analysis_fields_defaults [of sample_lib "[(''severity'', JInt 7)]"] k7
  have "\<exists>m. map_analysis_fields sample_lib [(''severity'', JInt 7)] = Inl (ValueError m)"
    by blast
  moreover from map_analysis_fields_defaults [of sample_lib "[(''severity'', JInt 0)]"] k0
  have "\<exists>m. map_analysis_fields sample_lib [(''severity'', JInt 0)] = Inl (ValueError m)"
    by blast
  ultimately show ?thesis using run by simp
qed

section \<open>Instructions when generation fails (C7)\<close>

text \<open>
  C7, as claimed: when the response to the instruction request is empty or holds no
  JSON array, \<open>generate_first_aid_instructions\<close> returns a non-empty built-in
  instruction set. For a response in prose, and for the empty response, it returns the
  empty list.
\<close>

theorem unparseable_response_gives_no_instructions:
  "generate_first_aid_instructions sample_lib FRACTURE (Inr ''I cannot help with that'')
     = Inr []
   \<and> generate_first_aid_instructions sample_lib FRACTURE (Inr []) = Inr []"
  by (simp add: generate_first_aid_instructions_def instructions_attempt_def
        parse_instructions_response_def search_json_fence_def search_greedy_def)

text \<open>
  C7, as amended. Whenever the generation call raises, or the construction of an
  instruction from an element of the parsed array raises, \<open>generate_first_aid_instructions\<close>
  returns the built-in instruction set of the emergency type, which is never empty: the
  curated steps for cardiac arrest and for choking, and for every other type the two
  generic steps, to call 911 immediately and to keep the person calm and still. When
  the response parses to no element, in particular when it holds neither a fenced block
  nor brackets, the function returns the empty list.
\<close>

theorem generate_first_aid_instructions_fallback:
  "(instructions_attempt lib call_outcome = Inl e \<longrightarrow>
      generate_first_aid_instructions lib et call_outcome = Inr (builtin_instructions et))
   \<and> generate_first_aid_instructions lib et (Inl e) = Inr (builtin_instructions et)
   \<and> builtin_instructions et \<noteq> []
   \<and> builtin_instructions CARDIAC_ARREST = builtin_cardiac_arrest
   \<and> builtin_instructions CHOKING = builtin_choking
   \<and> (et \<noteq> CARDIAC_ARREST \<and> et \<noteq> CHOKING \<longrightarrow> builtin_instructions et = builtin_generic)
   \<and> map instruction_text builtin_generic
        = [''Call 911 immediately'', ''Keep the person calm and still'']
   \<and> (parse_instructions_response lib response_text = [] \<longrightarrow>
        generate_first_aid_instructions lib et (Inr response_text) = Inr [])
   \<and> (search_json_fence response_text = None
        \<and> search_greedy CHR ''['' CHR '']'' response_text = None \<longrightarrow>
        generate_first_aid_instructions lib et (Inr response_text) = Inr [])"
proof -
  have raised:
    "generate_first_aid_instructions lib et call_outcome = Inr (builtin_instructions et)"
    if "instructions_attempt lib call_outcome = Inl e"
    using that
    by (simp add: generate_first_aid_instructions_def get_default_instructions_builtin)
  have sets: "builtin_instructions CARDIAC_ARREST = builtin_cardiac_arrest"
    "builtin_instructions CHOKING = builtin_choking"
    "et \<noteq> CARDIAC_ARREST \<and> et \<noteq> CHOKING \<longrightarrow> builtin_instructions et = builtin_generic"
    by (simp_all add: builtin_instructions_def)
  have generic: "map instruction_text builtin_generic
        = [''Call 911 immediately'', ''Keep the person calm and still'']"
    by (simp add: builtin_generic_def)
  have no_steps: "generate_first_aid_instructions lib et (Inr response_text) = Inr []"
    if "parse_instructions_response lib response_text = []"
    using that by (simp add: generate_first_aid_instructions_def instructions_attempt_def)
  have unmatched: "generate_first_aid_instructions lib et (Inr response_text) = Inr []"
    if "search_json_fence response_text = None"
       "search_greedy CHR ''['' CHR '']'' response_text = None"
  proof -
    from that have "parse_instructions_response lib response_text = []"
      by (simp add: parse_instructions_response_def)
    then show ?thesis
      by (simp add: generate_first_aid_instructions_def instructions_attempt_def)
  qed
  from raised generate_first_aid_instructions_raised [of lib et e]
       builtin_instructions_nonempty [of et] sets generic no_steps unmatched
  show ?thesis by blast
qed

theorem generate_first_aid_instructions_fallback_witness:
  "generate_first_aid_instructions sample_lib FRACTURE (Inr ''[1]'') = Inr builtin_generic
   \<and> generate_first_aid_instructions sample_lib CHOKING (Inl (ExternalError ''quota exceeded''))
       = Inr builtin_choking
   \<and> generate_first_aid_instructions sample_lib FRACTURE (Inr ''no steps'') = Inr []"
proof -
  have a: "instructions_attempt sample_lib (Inr ''[1]'')
            = Inl (AttributeError
                     (quoted ''int'' @ '' object has no attribute '' @ quoted ''get''))"
    by (simp add: instructions_attempt_def parse_instructions_response_def
          search_json_fence_def search_greedy_def sample_lib_def instruction_of_json_def)
  have b: "search_json_fence ''no steps'' = None
           \<and> search_greedy CHR ''['' CHR '']'' ''no steps'' = None"
    by (simp add: search_json_fence_def search_greedy_def)
  from generate_first_aid_instructions_fallback [of sample_lib "Inr ''[1]''" _ FRACTURE] a
  have 1: "generate_first_aid_instructions sample_lib FRACTURE (Inr ''[1]'')
             = Inr builtin_generic"
    by simp
  from generate_first_aid_instructions_fallback
         [of sample_lib _ "ExternalError ''quota exceeded''" CHOKING]
  have 2: "generate_first_aid_instructions sample_lib CHOKING
             (Inl (ExternalError ''quota exceeded'')) = Inr builtin_choking"
    by simp
  from generate_first_aid_instructions_fallback [of sample_lib _ _ FRACTURE "''no steps''"] b
  have 3: "generate_first_aid_instructions sample_lib FRACTURE (Inr ''no steps'') = Inr []"
    by simp
  from 1 2 3 show ?thesis by simp
qed

section \<open>The response normalizer (C8)\<close>

text \<open>
  C8. The claim is that the normalizer never raises and returns the parsed object of a
  fenced block, else the first object or array literal, else an empty result. For the
  text of the example, \<open>_parse_analysis_response\<close> returns the object with \<open>a\<close> bound to
  1, and for prose it returns the empty dictionary. For a fenced block that holds the
  array \<open>[1]\<close>, it raises \<open>AttributeError\<close>: the parsed value has no \<open>keys\<close>, and only
  \<open>JSONDecodeError\<close> is caught. \<open>_parse_instructions_response\<close> tests the type of the
  parsed value and returns the array.
\<close>

theorem parse_analysis_response_raises_on_array:
  "parse_analysis_response sample_lib ''```json [1] ```''
     = Inl (AttributeError (quoted ''list'' @ '' object has no attribute '' @ quoted ''keys''))
   \<and> parse_instructions_response sample_lib ''```json [1] ```'' = [JInt 1]
   \<and> parse_analysis_response sample_lib fenced_object_text = Inr [(''a'', JInt 1)]
   \<and> parse_analysis_response sample_lib ''plain prose with no payload'' = Inr []"
  by (simp add: parse_analysis_response_def parse_instructions_response_def
        search_json_fence_def search_greedy_def dq_def sample_lib_def fenced_object_text_def
        py_lstrip_def py_rstrip_def py_isspace_def)

end
